theory Spec2Isabelle
  imports Main "HOL-Library.Sublist"
begin

section \<open>Python strings and values\<close>

text \<open>
  A Python 3 \<^verbatim>\<open>str\<close> is a sequence of Unicode code points, so it is modelled as a list of
  natural numbers (the code points), not as a list of 8-bit characters.  \<open>u\<close> turns an
  ASCII literal of the source into such a string.
\<close>

type_synonym pystr = "nat list"

definition u :: "string \<Rightarrow> pystr" where
  "u s = map of_char s"

text \<open>
  The values a record field can hold: a string, \<^verbatim>\<open>None\<close>, a boolean, or numpy's
  \<^verbatim>\<open>nan\<close>.
\<close>

datatype pyval = PStr pystr | PNone | PBool bool | PNaN

definition opt_val :: "pystr option \<Rightarrow> pyval" where
  "opt_val t = (case t of None \<Rightarrow> PNone | Some s \<Rightarrow> PStr s)"

definition is_str :: "pyval \<Rightarrow> bool" where
  "is_str v = (case v of PStr _ \<Rightarrow> True | _ \<Rightarrow> False)"

text \<open>The exceptions the modelled code can raise.\<close>

datatype py_error = AttributeError | TypeError | IndexError | ValueError | XMLSyntaxError

text \<open>
  An lxml element: tag, attributes, text (\<^verbatim>\<open>None\<close> when the element has none), children in
  document order and tail text.  Comments and processing instructions are not part of
  the model: every node is an element.
\<close>

datatype element =
  Element (tag: pystr) (attrib: "(pystr \<times> pystr) list") (etext: "pystr option")
          (children: "element list") (tail: "pystr option")

text \<open>
  What the code takes from its interpreter and from lxml without this repository
  defining it: the Unicode classification of the code points above ASCII
  (\<^verbatim>\<open>str.isdigit\<close>, and the decimal value used by \<^verbatim>\<open>int\<close> and by the regular
  expression class \<^verbatim>\<open>\d\<close>) and lxml's serialiser and parser
  (\<^verbatim>\<open>etree.tostring\<close>, \<^verbatim>\<open>etree.fromstring\<close>).  They are parameters of the model.
\<close>

record runtime =
  uni_digit :: "nat \<Rightarrow> bool"
  uni_decimal :: "nat \<Rightarrow> nat option"
  tostring :: "element \<Rightarrow> pystr"
  fromstring :: "pystr \<Rightarrow> py_error + element"

section \<open>String operations of the interpreter\<close>

text \<open>
  \<^verbatim>\<open>str.strip()\<close> removes leading and trailing whitespace; the whitespace code points of
  Python 3 are listed here.
\<close>

definition py_isspace :: "nat \<Rightarrow> bool" where
  "py_isspace c \<longleftrightarrow>
     (9 \<le> c \<and> c \<le> 13) \<or> (28 \<le> c \<and> c \<le> 32) \<or> c = 133 \<or> c = 160 \<or> c = 5760 \<or>
     (8192 \<le> c \<and> c \<le> 8202) \<or> c = 8232 \<or> c = 8233 \<or> c = 8239 \<or> c = 8287 \<or> c = 12288"

definition py_strip :: "pystr \<Rightarrow> pystr" where
  "py_strip s = rev (dropWhile py_isspace (rev (dropWhile py_isspace s)))"

text \<open>\<^verbatim>\<open>sep.join(xs)\<close>.\<close>

fun py_join :: "pystr \<Rightarrow> pystr list \<Rightarrow> pystr" where
  "py_join sep [] = []"
| "py_join sep [x] = x"
| "py_join sep (x # y # ys) = x @ sep @ py_join sep (y # ys)"

text \<open>
  \<^verbatim>\<open>s.replace(old, new)\<close> for a non-empty \<open>old\<close>: the occurrences are replaced from left
  to right, without overlap.
\<close>

function py_replace :: "pystr \<Rightarrow> pystr \<Rightarrow> pystr \<Rightarrow> pystr" where
  "py_replace old new [] = []"
| "py_replace old new (c # cs) =
     (if old \<noteq> [] \<and> prefix old (c # cs)
      then new @ py_replace old new (drop (length old) (c # cs))
      else c # py_replace old new cs)"
  by pat_completeness auto
termination
  by (relation "measure (\<lambda>(old, new, s). length s)") auto

text \<open>\<^verbatim>\<open>x or ''\<close> for a string \<open>x\<close>: an empty \<open>x\<close> is falsy, and the default is empty too.\<close>

definition or_empty :: "pystr \<Rightarrow> pystr" where
  "or_empty s = (if s \<noteq> [] then s else [])"

text \<open>
  \<^verbatim>\<open>str.isdigit()\<close>, \<^verbatim>\<open>int(s)\<close> on a string of digits, and \<^verbatim>\<open>str(n)\<close> for a
  non-negative integer.
\<close>

definition py_isdigit_char :: "runtime \<Rightarrow> nat \<Rightarrow> bool" where
  "py_isdigit_char R c = (if c < 128 then 48 \<le> c \<and> c \<le> 57 else uni_digit R c)"

definition py_isdigit :: "runtime \<Rightarrow> pystr \<Rightarrow> bool" where
  "py_isdigit R s \<longleftrightarrow> s \<noteq> [] \<and> list_all (py_isdigit_char R) s"

definition py_decimal :: "runtime \<Rightarrow> nat \<Rightarrow> nat option" where
  "py_decimal R c =
     (if c < 128 then (if 48 \<le> c \<and> c \<le> 57 then Some (c - 48) else None)
      else uni_decimal R c)"

fun int_digits :: "runtime \<Rightarrow> nat \<Rightarrow> pystr \<Rightarrow> py_error + nat" where
  "int_digits R acc [] = Inr acc"
| "int_digits R acc (c # cs) =
     (case py_decimal R c of
        None \<Rightarrow> Inl ValueError
      | Some d \<Rightarrow> int_digits R (10 * acc + d) cs)"

definition py_int :: "runtime \<Rightarrow> pystr \<Rightarrow> py_error + nat" where
  "py_int R s = (if s = [] then Inl ValueError else int_digits R 0 s)"

fun py_str_nat :: "nat \<Rightarrow> pystr" where
  "py_str_nat n = (if n < 10 then [48 + n] else py_str_nat (n div 10) @ [48 + n mod 10])"

section \<open>utils.py\<close>

text \<open>
  \<^verbatim>\<open>filter(None, calendar.month_abbr)\<close> in the C locale, and the month number
  \<^verbatim>\<open>strptime(s, '%b').tm_mon\<close> of one of its entries.
\<close>

definition month_abbr :: "pystr list" where
  "month_abbr = map u [''Jan'', ''Feb'', ''Mar'', ''Apr'', ''May'', ''Jun'',
                       ''Jul'', ''Aug'', ''Sep'', ''Oct'', ''Nov'', ''Dec'']"

fun tm_mon :: "pystr list \<Rightarrow> pystr \<Rightarrow> nat" where
  "tm_mon [] s = 0"
| "tm_mon (m # ms) s = (if m = s then 1 else Suc (tm_mon ms s))"

text \<open>
  \<^verbatim>\<open>month_or_day_formater\<close> (utils.py, lines 113 to 137) on a string; the caller's
  \<^verbatim>\<open>None\<close> argument is handled where it arises.  The result \<open>Inr None\<close> is the
  returned \<^verbatim>\<open>None\<close>.
\<close>

definition month_or_day_formater :: "runtime \<Rightarrow> pystr \<Rightarrow> py_error + pystr option" where
  "month_or_day_formater R month_or_day =
     (let fmt = (\<lambda>to_format. (if to_format < 10 then u ''0'' else []) @ py_str_nat to_format) in
      if py_replace (u ''.'') [] month_or_day \<in> set month_abbr
      then Inr (Some (fmt (tm_mon month_abbr (py_replace (u ''.'') [] month_or_day))))
      else if py_isdigit R (py_strip month_or_day) \<and> \<not> sublist (u ''.'') month_or_day
      then (case py_int R (py_strip month_or_day) of
              Inl e \<Rightarrow> Inl e
            | Inr to_format \<Rightarrow> Inr (Some (fmt to_format)))
      else Inr None)"

section \<open>The lxml operations the parser uses\<close>

text \<open>
  \<^verbatim>\<open>e.findall(path)\<close> for a path of tag names separated by \<^verbatim>\<open>/\<close> (given here as the
  list of the tags): the matching elements in document order.  \<^verbatim>\<open>e.find(path)\<close> is the
  first of them, or \<^verbatim>\<open>None\<close>.
\<close>

fun findall :: "pystr list \<Rightarrow> element \<Rightarrow> element list" where
  "findall [] e = [e]"
| "findall (t # ts) e = concat (map (findall ts) (filter (\<lambda>c. tag c = t) (children e)))"

definition find_first :: "pystr list \<Rightarrow> element \<Rightarrow> element option" where
  "find_first path e = (case findall path e of [] \<Rightarrow> None | x # _ \<Rightarrow> Some x)"

text \<open>\<^verbatim>\<open>e.attrib.get(key, default)\<close>.\<close>

definition attrib_get :: "element \<Rightarrow> pystr \<Rightarrow> pystr \<Rightarrow> pystr" where
  "attrib_get e k d = (case map_of (attrib e) k of None \<Rightarrow> d | Some v \<Rightarrow> v)"

text \<open>\<^verbatim>\<open>e.itertext()\<close>: the text of the element, then for each child its own texts and its tail.\<close>

fun itertext :: "element \<Rightarrow> pystr list" where
  "itertext (Element t a x cs w) =
     (case x of None \<Rightarrow> [] | Some s \<Rightarrow> [s]) @
     concat (map (\<lambda>c. itertext c @ (case tail c of None \<Rightarrow> [] | Some s \<Rightarrow> [s])) cs)"

text \<open>The elements below a node, in document order (\<^verbatim>\<open>.//*\<close>).\<close>

fun descendants :: "element \<Rightarrow> element list" where
  "descendants (Element t a x cs w) = concat (map (\<lambda>c. c # descendants c) cs)"

text \<open>
  \<^verbatim>\<open>tree.findall('//A/B')\<close> and \<^verbatim>\<open>tree.findall('//A')\<close> on a parsed document with root \<open>r\<close>:
  lxml searches below the root, which itself is never a match of the first step.
\<close>

definition tree_findall :: "pystr list \<Rightarrow> element \<Rightarrow> element list" where
  "tree_findall path r =
     (case path of
        [] \<Rightarrow> []
      | t # ts \<Rightarrow> concat (map (findall ts) (filter (\<lambda>d. tag d = t) (descendants r))))"

text \<open>
  \<^verbatim>\<open>journal.xpath('Title/text()')\<close>: the text nodes that are children of the \<^verbatim>\<open>Title\<close>
  children, which are the text of each and the tails of its children.
\<close>

definition text_nodes :: "element \<Rightarrow> pystr list" where
  "text_nodes e =
     (case etext e of None \<Rightarrow> [] | Some s \<Rightarrow> [s]) @
     concat (map (\<lambda>c. case tail c of None \<Rightarrow> [] | Some s \<Rightarrow> [s]) (children e))"

text \<open>Sequencing of computations that may raise, and a loop body applied along a list.\<close>

definition err_bind :: "'e + 'a \<Rightarrow> ('a \<Rightarrow> 'e + 'b) \<Rightarrow> 'e + 'b" where
  "err_bind m f = (case m of Inl e \<Rightarrow> Inl e | Inr v \<Rightarrow> f v)"

fun map_err :: "('a \<Rightarrow> 'e + 'b) \<Rightarrow> 'a list \<Rightarrow> 'e + 'b list" where
  "map_err f [] = Inr []"
| "map_err f (x # xs) =
     (case f x of
        Inl e \<Rightarrow> Inl e
      | Inr y \<Rightarrow> (case map_err f xs of Inl e \<Rightarrow> Inl e | Inr ys \<Rightarrow> Inr (y # ys)))"

text \<open>
  \<^verbatim>\<open>stringify_children\<close> (utils.py, lines 39 to 63).  The marker arguments are
  \<^verbatim>\<open>None\<close> or a pair of strings.
\<close>

definition stringify_children ::
  "runtime \<Rightarrow> element \<Rightarrow> (pystr \<times> pystr) option \<Rightarrow> (pystr \<times> pystr) option \<Rightarrow> py_error + pystr" where
  "stringify_children R node subscpt supscpt =
     (if subscpt \<noteq> None \<or> supscpt \<noteq> None then
        (let sub = (case subscpt of None \<Rightarrow> ([], []) | Some p \<Rightarrow> p);
             sup = (case supscpt of None \<Rightarrow> ([], []) | Some p \<Rightarrow> p);
             asstring = tostring R node;
             asstring = (if sublist (u ''<sub>'') asstring
                         then py_replace (u ''</sub>'') (snd sub)
                                (py_replace (u ''<sub>'') (fst sub) asstring)
                         else asstring);
             asstring = (if sublist (u ''<sup>'') asstring
                         then py_replace (u ''</sup>'') (snd sup)
                                (py_replace (u ''<sup>'') (fst sup) asstring)
                         else asstring)
         in err_bind (fromstring R asstring) (\<lambda>node'. Inr (concat (itertext node'))))
      else Inr (concat (itertext node)))"

section \<open>medline\_parser.py: the scalar field extractors\<close>

text \<open>\<^verbatim>\<open>parse_pmid\<close> (lines 13 to 30); the result \<open>None\<close> is Python's \<^verbatim>\<open>None\<close>.\<close>

definition parse_pmid :: "element \<Rightarrow> pystr option" where
  "parse_pmid medline =
     (case find_first [u ''PMID''] medline of
        Some p \<Rightarrow> etext p
      | None \<Rightarrow> Some [])"

text \<open>
  \<^verbatim>\<open>parse_mesh_terms\<close> (lines 33 to 57).  \<open>mesh_term\<close> is the expression of the list
  comprehension for one child \<open>m\<close>.
\<close>

definition mesh_term :: "element \<Rightarrow> py_error + pystr" where
  "mesh_term m =
     (case find_first [u ''DescriptorName''] m of
        None \<Rightarrow> Inl AttributeError
      | Some d \<Rightarrow>
          (case etext d of
             None \<Rightarrow> Inl TypeError
           | Some t \<Rightarrow> Inr (attrib_get d (u ''UI'') [] @ u '':'' @ t)))"

definition parse_mesh_terms :: "element \<Rightarrow> py_error + pystr" where
  "parse_mesh_terms medline =
     (case find_first [u ''MeshHeadingList''] medline of
        Some mesh \<Rightarrow>
          err_bind (map_err mesh_term (children mesh))
            (\<lambda>mesh_terms_list. Inr (py_join (u ''; '') mesh_terms_list))
      | None \<Rightarrow> Inr [])"

text \<open>
  \<^verbatim>\<open>parse_publication_types\<close> (lines 60 to 82).  \<open>ui_text\<close> is the appended expression
  \<^verbatim>\<open>x.attrib.get('UI', '') + ':' + (x.text.strip() or '')\<close>, which
  \<^verbatim>\<open>parse_chemical_list\<close> uses as well.
\<close>

definition ui_text :: "element \<Rightarrow> py_error + pystr" where
  "ui_text x =
     (case etext x of
        None \<Rightarrow> Inl AttributeError
      | Some t \<Rightarrow> Inr (attrib_get x (u ''UI'') [] @ u '':'' @ or_empty (py_strip t)))"

definition parse_publication_types :: "element \<Rightarrow> py_error + pystr" where
  "parse_publication_types medline =
     (case find_first [u ''Article'', u ''PublicationTypeList''] medline of
        Some publication_type_list \<Rightarrow>
          err_bind (map_err ui_text (findall [u ''PublicationType''] publication_type_list))
            (\<lambda>publication_types. Inr (py_join (u ''; '') publication_types))
      | None \<Rightarrow> Inr (py_join (u ''; '') []))"

text \<open>\<^verbatim>\<open>parse_keywords\<close> (lines 85 to 107).\<close>

definition parse_keywords :: "element \<Rightarrow> pystr" where
  "parse_keywords medline =
     (case find_first [u ''KeywordList''] medline of
        Some keyword_list \<Rightarrow>
          py_join (u ''; '')
            (concat (map (\<lambda>k. case etext k of None \<Rightarrow> [] | Some t \<Rightarrow> [t])
                         (findall [u ''Keyword''] keyword_list)))
      | None \<Rightarrow> [])"

text \<open>\<^verbatim>\<open>parse_chemical_list\<close> (lines 110 to 132).\<close>

definition chemical_entry :: "element \<Rightarrow> py_error + pystr" where
  "chemical_entry chemical =
     (case find_first [u ''NameOfSubstance''] chemical of
        None \<Rightarrow> Inl AttributeError
      | Some substance_name \<Rightarrow> ui_text substance_name)"

definition parse_chemical_list :: "element \<Rightarrow> py_error + pystr" where
  "parse_chemical_list medline =
     (case find_first [u ''ChemicalList''] medline of
        Some chemicals \<Rightarrow>
          err_bind (map_err chemical_entry (findall [u ''Chemical''] chemicals))
            (\<lambda>chemical_list. Inr (py_join (u ''; '') chemical_list))
      | None \<Rightarrow> Inr (py_join (u ''; '') []))"

text \<open>
  \<^verbatim>\<open>parse_other_id\<close> (lines 135 to 163).  \<open>other_id_loop\<close> is the \<^verbatim>\<open>for\<close> loop, with
  the variables \<^verbatim>\<open>pmc\<close> and \<^verbatim>\<open>other_id\<close> as its state; \<^verbatim>\<open>findall\<close> returns a list, so
  the branch for \<^verbatim>\<open>oids is None\<close> is never taken.  The result is the returned dict.
\<close>

fun other_id_loop :: "element list \<Rightarrow> pystr \<Rightarrow> pystr list \<Rightarrow> py_error + (pystr \<times> pystr list)" where
  "other_id_loop [] pmc other_id = Inr (pmc, other_id)"
| "other_id_loop (oid # oids) pmc other_id =
     (case etext oid of
        None \<Rightarrow> Inl TypeError
      | Some t \<Rightarrow>
          (if sublist (u ''PMC'') t
           then other_id_loop oids t other_id
           else other_id_loop oids pmc (other_id @ [t])))"

definition parse_other_id :: "element \<Rightarrow> py_error + (string \<rightharpoonup> pyval)" where
  "parse_other_id medline =
     err_bind (other_id_loop (findall [u ''OtherID''] medline) [] [])
       (\<lambda>(pmc, other_id).
          Inr (map_of [(''pmc'', PStr pmc), (''other_id'', PStr (py_join (u ''; '') other_id))]))"

text \<open>\<^verbatim>\<open>parse_journal_info\<close> (lines 166 to 208); \<open>text_or_empty\<close> is \<^verbatim>\<open>x.text or ''\<close>.\<close>

definition text_or_empty :: "element \<Rightarrow> pystr" where
  "text_or_empty x = (case etext x of None \<Rightarrow> [] | Some t \<Rightarrow> or_empty t)"

definition parse_journal_info :: "element \<Rightarrow> string \<rightharpoonup> pyval" where
  "parse_journal_info medline =
     (let (medline_ta, nlm_unique_id, issn_linking, country) =
        (case find_first [u ''MedlineJournalInfo''] medline of
           Some journal_info \<Rightarrow>
             ((case find_first [u ''MedlineTA''] journal_info of
                 Some x \<Rightarrow> text_or_empty x | None \<Rightarrow> []),
              (case find_first [u ''NlmUniqueID''] journal_info of
                 Some x \<Rightarrow> text_or_empty x | None \<Rightarrow> []),
              (case find_first [u ''ISSNLinking''] journal_info of
                 Some x \<Rightarrow> etext x | None \<Rightarrow> Some []),
              (case find_first [u ''Country''] journal_info of
                 Some x \<Rightarrow> text_or_empty x | None \<Rightarrow> []))
         | None \<Rightarrow> ([], [], Some [], []))
      in map_of [(''medline_ta'', PStr (py_strip medline_ta)),
                 (''nlm_unique_id'', PStr nlm_unique_id),
                 (''issn_linking'', opt_val issn_linking),
                 (''country'', PStr country)])"

text \<open>
  \<^verbatim>\<open>parse_doi\<close> (lines 265 to 284).  \<open>doi_loop\<close> is the \<^verbatim>\<open>for\<close> loop with the variable
  \<^verbatim>\<open>doi\<close> as its state; the conditional expression reads the text only of an element
  whose \<^verbatim>\<open>EIdType\<close> is \<^verbatim>\<open>doi\<close>.
\<close>

fun doi_loop :: "element list \<Rightarrow> pystr \<Rightarrow> py_error + pystr" where
  "doi_loop [] doi = Inr doi"
| "doi_loop (e # es) doi =
     (if attrib_get e (u ''EIdType'') [] = u ''doi''
      then (case etext e of
              None \<Rightarrow> Inl AttributeError
            | Some t \<Rightarrow> doi_loop es (or_empty (py_strip t)))
      else doi_loop es [])"

definition parse_doi :: "element \<Rightarrow> py_error + pystr" where
  "parse_doi medline =
     (case find_first [u ''Article''] medline of
        None \<Rightarrow> Inl AttributeError
      | Some article \<Rightarrow>
          (let elocation_ids = findall [u ''ELocationID''] article in
           if length elocation_ids > 0 then doi_loop elocation_ids [] else Inr []))"

section \<open>medline\_parser.py: the date resolver\<close>

text \<open>
  \<^verbatim>\<open>re.findall(r'\d{4}', s)\<close>: the runs of four decimal digits, found from left to right
  without overlap.
\<close>

function re_findall_d4 :: "runtime \<Rightarrow> pystr \<Rightarrow> pystr list" where
  "re_findall_d4 R [] = []"
| "re_findall_d4 R (c # cs) =
     (if 4 \<le> length (c # cs) \<and> list_all (\<lambda>d. py_decimal R d \<noteq> None) (take 4 (c # cs))
      then take 4 (c # cs) # re_findall_d4 R (drop 4 (c # cs))
      else re_findall_d4 R cs)"
  by pat_completeness auto
termination
  by (relation "measure (\<lambda>(R, s). length s)") auto

text \<open>
  \<^verbatim>\<open>date_extractor\<close> (lines 287 to 333) in two parts.  \<open>date_fields\<close> is lines 313 to
  328: it computes the variables \<^verbatim>\<open>year\<close>, \<^verbatim>\<open>month\<close> and \<^verbatim>\<open>day\<close> from the
  \<^verbatim>\<open>PubDate\<close> element (\<open>None\<close> is Python's \<^verbatim>\<open>None\<close>).  \<open>date_serialize\<close> is lines 330
  to 333, where \<^verbatim>\<open>filter(None, ...)\<close> drops \<^verbatim>\<open>None\<close> and the empty string.
\<close>

definition formater_of_text :: "runtime \<Rightarrow> element \<Rightarrow> py_error + pystr option" where
  "formater_of_text R x =
     (case etext x of
        None \<Rightarrow> Inl AttributeError
      | Some t \<Rightarrow> month_or_day_formater R t)"

definition date_fields ::
  "runtime \<Rightarrow> element \<Rightarrow> bool \<Rightarrow> py_error + (pystr option \<times> pystr option \<times> pystr option)" where
  "date_fields R issue_date year_info_only =
     (case find_first [u ''Year''] issue_date of
        Some y \<Rightarrow>
          (let year = etext y in
           if \<not> year_info_only then
             (case find_first [u ''Month''] issue_date of
                Some m \<Rightarrow>
                  err_bind (formater_of_text R m) (\<lambda>month.
                    (case find_first [u ''Day''] issue_date of
                       Some d \<Rightarrow>
                         err_bind (formater_of_text R d) (\<lambda>day. Inr (year, month, day))
                     | None \<Rightarrow> Inr (year, month, None)))
              | None \<Rightarrow> Inr (year, None, None))
           else Inr (year, None, None))
      | None \<Rightarrow>
          (case find_first [u ''MedlineDate''] issue_date of
             Some md \<Rightarrow>
               (case etext md of
                  None \<Rightarrow> Inl TypeError
                | Some year_text \<Rightarrow>
                    (case re_findall_d4 R year_text of
                       [] \<Rightarrow> Inr (Some [], None, None)
                     | y # _ \<Rightarrow> Inr (Some y, None, None)))
           | None \<Rightarrow> Inr (Some [], None, None)))"

definition filter_none :: "pystr option list \<Rightarrow> pystr list" where
  "filter_none xs =
     concat (map (\<lambda>x. case x of None \<Rightarrow> [] | Some s \<Rightarrow> (if s = [] then [] else [s])) xs)"

definition date_serialize ::
  "bool \<Rightarrow> pystr option \<Rightarrow> pystr option \<Rightarrow> pystr option \<Rightarrow> pystr option" where
  "date_serialize year_info_only year month day =
     (if year_info_only \<or> month = None then year
      else Some (py_join (u ''-'') (filter_none [year, month, day])))"

definition date_extractor :: "runtime \<Rightarrow> element \<Rightarrow> bool \<Rightarrow> py_error + pystr option" where
  "date_extractor R journal year_info_only =
     (case findall [u ''JournalIssue''] journal of
        [] \<Rightarrow> Inl IndexError
      | issue # _ \<Rightarrow>
          (case find_first [u ''PubDate''] issue of
             None \<Rightarrow> Inl AttributeError
           | Some issue_date \<Rightarrow>
               err_bind (date_fields R issue_date year_info_only)
                 (\<lambda>(year, month, day). Inr (date_serialize year_info_only year month day))))"

section \<open>medline\_parser.py: the record assembler\<close>

text \<open>
  \<^verbatim>\<open>inp_list\<close> (lines 336 and 337): the strings to replace, each of one code point, and
  their replacement, the space.  \<^verbatim>\<open>replace_multiple\<close> is lines 339 to 346.
\<close>

definition inp_list :: "pystr list \<times> pystr" where
  "inp_list =
     ([[32], [160], [6158], [8192], [8193], [8194], [8195], [8196], [8197], [8198], [8199],
       [8200], [8201], [8202], [8203], [8239], [8287], [12288], [65279]], [32])"

definition replace_multiple :: "pystr list \<times> pystr \<Rightarrow> pystr \<Rightarrow> pystr" where
  "replace_multiple inp inp_string =
     fold (\<lambda>x s. py_replace x (snd inp) s) (fst inp) inp_string"

text \<open>\<^verbatim>\<open>re.sub(' +', ' ', s)\<close>: every run of spaces becomes one space.\<close>

fun re_sub_spaces :: "pystr \<Rightarrow> pystr" where
  "re_sub_spaces (a # b # cs) =
     (if a = 32 \<and> b = 32 then re_sub_spaces (b # cs) else a # re_sub_spaces (b # cs))"
| "re_sub_spaces cs = cs"

text \<open>
  The whitespace normalisation that \<^verbatim>\<open>parse_article_info\<close> applies to the title (lines
  376 and 377) and to the abstract (lines 401 and 402):
  \<^verbatim>\<open>s = replace_multiple(inp_list, s); s = re.sub(' +', ' ', s.replace("\n", "")).strip()\<close>.
\<close>

definition normalize_whitespace :: "pystr \<Rightarrow> pystr" where
  "normalize_whitespace s =
     py_strip (re_sub_spaces (py_replace [10] [] (replace_multiple inp_list s)))"

text \<open>The title, lines 371 to 377 of \<^verbatim>\<open>parse_article_info\<close>.\<close>

definition parse_title ::
  "runtime \<Rightarrow> element \<Rightarrow> (pystr \<times> pystr) option \<Rightarrow> (pystr \<times> pystr) option \<Rightarrow> py_error + pystr" where
  "parse_title R article subscpt supscpt =
     err_bind
       (case find_first [u ''ArticleTitle''] article of
          Some t \<Rightarrow>
            err_bind (stringify_children R t subscpt supscpt) (\<lambda>s. Inr (or_empty (py_strip s)))
        | None \<Rightarrow> Inr [])
       (\<lambda>title. Inr (normalize_whitespace title))"

text \<open>
  The abstract, lines 379 to 402.  \<open>abstract_sections\<close> is the loop over the
  \<^verbatim>\<open>AbstractText\<close> elements of a structured abstract and returns \<^verbatim>\<open>abstract_list\<close>.
\<close>

fun abstract_sections ::
  "runtime \<Rightarrow> element list \<Rightarrow> bool \<Rightarrow> pystr \<Rightarrow> (pystr \<times> pystr) option \<Rightarrow> (pystr \<times> pystr) option
     \<Rightarrow> py_error + pystr list" where
  "abstract_sections R [] incl_sections category subscpt supscpt = Inr []"
| "abstract_sections R (abstract # rest) incl_sections category subscpt supscpt =
     (let labels =
        (if incl_sections then
           (let section = attrib_get abstract category [] in
            if section \<noteq> u ''UNASSIGNED''
            then [[10], attrib_get abstract category []]
            else [])
         else [])
      in err_bind (stringify_children R abstract subscpt supscpt) (\<lambda>s.
           err_bind (abstract_sections R rest incl_sections category subscpt supscpt) (\<lambda>more.
             Inr (labels @ [py_strip s] @ more))))"

definition parse_abstract ::
  "runtime \<Rightarrow> element \<Rightarrow> bool \<Rightarrow> (pystr \<times> pystr) option \<Rightarrow> (pystr \<times> pystr) option \<Rightarrow> bool
     \<Rightarrow> py_error + pystr" where
  "parse_abstract R article nlm_category subscpt supscpt incl_sections =
     (let category = (if nlm_category then u ''NlmCategory'' else u ''Label'') in
      err_bind
        (case find_first [u ''Abstract'', u ''AbstractText''] article of
           Some first_text \<Rightarrow>
             (if length (findall [u ''Abstract'', u ''AbstractText''] article) > 1
              then err_bind
                     (abstract_sections R (findall [u ''Abstract'', u ''AbstractText''] article)
                        incl_sections category subscpt supscpt)
                     (\<lambda>abstract_list. Inr (py_strip (py_join (u '' '') abstract_list)))
              else err_bind (stringify_children R first_text subscpt supscpt)
                     (\<lambda>s. Inr (or_empty (py_strip s))))
         | None \<Rightarrow>
             (case find_first [u ''Abstract''] article of
                Some a \<Rightarrow>
                  err_bind (stringify_children R a subscpt supscpt)
                    (\<lambda>s. Inr (or_empty (py_strip s)))
              | None \<Rightarrow> Inr []))
        (\<lambda>abstract. Inr (normalize_whitespace abstract)))"

text \<open>
  The authors and affiliations, lines 404 to 427.  The test \<^verbatim>\<open>a is not ''\<close> holds for
  the non-empty affiliations.
\<close>

definition author_entry :: "element \<Rightarrow> pystr \<times> pystr" where
  "author_entry author =
     (let firstname = (case find_first [u ''Initials''] author of
                         Some x \<Rightarrow> text_or_empty x | None \<Rightarrow> []);
          lastname = (case find_first [u ''LastName''] author of
                        Some x \<Rightarrow> text_or_empty x | None \<Rightarrow> []);
          affiliation = (case find_first [u ''AffiliationInfo'', u ''Affiliation''] author of
                           Some x \<Rightarrow> text_or_empty x | None \<Rightarrow> [])
      in (py_strip (firstname @ u '' '' @ lastname), affiliation))"

definition parse_authors :: "element \<Rightarrow> pystr \<times> pystr" where
  "parse_authors article =
     (case find_first [u ''AuthorList''] article of
        Some author_list \<Rightarrow>
          (let entries = map author_entry (children author_list)
           in (py_join (u ''; '') (map fst entries),
               py_join [10] (filter (\<lambda>a. a \<noteq> []) (map snd entries))))
      | None \<Rightarrow> ([], []))"

text \<open>
  \<^verbatim>\<open>parse_article_info\<close> (lines 348 to 458).  The result is the returned dict; the
  statements run in the order of the source, so the first exception is the one raised.
\<close>

definition parse_article_info ::
  "runtime \<Rightarrow> element \<Rightarrow> bool \<Rightarrow> bool \<Rightarrow> (pystr \<times> pystr) option \<Rightarrow> (pystr \<times> pystr) option \<Rightarrow> bool
     \<Rightarrow> py_error + (string \<rightharpoonup> pyval)" where
  "parse_article_info R medline year_info_only nlm_category subscpt supscpt incl_sections =
     (case find_first [u ''Article''] medline of
        None \<Rightarrow> Inl AttributeError
      | Some article \<Rightarrow>
          err_bind (parse_title R article subscpt supscpt) (\<lambda>title.
          err_bind (parse_abstract R article nlm_category subscpt supscpt incl_sections) (\<lambda>abstract.
          (let (authors_info, affiliations_info) = parse_authors article in
           (case find_first [u ''Journal''] article of
              None \<Rightarrow> Inl AttributeError
            | Some journal \<Rightarrow>
                (let journal_name =
                       py_join (u '' '') (concat (map text_nodes (findall [u ''Title''] journal)))
                 in
                 err_bind (date_extractor R journal year_info_only) (\<lambda>pubdate.
                 err_bind (parse_doi medline) (\<lambda>doi.
                 err_bind (parse_mesh_terms medline) (\<lambda>mesh_terms.
                 err_bind (parse_publication_types medline) (\<lambda>publication_types.
                 err_bind (parse_chemical_list medline) (\<lambda>chemical_list.
                 err_bind (parse_other_id medline) (\<lambda>other_id_dict.
                   Inr (map_of
                          [(''title'', PStr title),
                           (''abstract'', PStr abstract),
                           (''journal'', PStr journal_name),
                           (''author'', PStr authors_info),
                           (''affiliation'', PStr affiliations_info),
                           (''pubdate'', opt_val pubdate),
                           (''pmid'', opt_val (parse_pmid medline)),
                           (''mesh_terms'', PStr mesh_terms),
                           (''publication_types'', PStr publication_types),
                           (''chemical_list'', PStr chemical_list),
                           (''keywords'', PStr (parse_keywords medline)),
                           (''doi'', PStr doi),
                           (''delete'', PBool False)]
                        ++ other_id_dict ++ parse_journal_info medline)))))))))))))"

section \<open>medline\_parser.py: the batch driver\<close>

text \<open>The stub record of a deletion notice \<open>p\<close>, lines 496 to 516.\<close>

definition dict_delete :: "element \<Rightarrow> string \<rightharpoonup> pyval" where
  "dict_delete p =
     map_of [(''title'', PNaN),
             (''abstract'', PNaN),
             (''journal'', PNaN),
             (''author'', PNaN),
             (''affiliation'', PNaN),
             (''pubdate'', PNaN),
             (''pmid'', opt_val (etext p)),
             (''doi'', PNaN),
             (''other_id'', PNaN),
             (''pmc'', PNaN),
             (''mesh_terms'', PNaN),
             (''keywords'', PNaN),
             (''publication_types'', PNaN),
             (''chemical_list'', PNaN),
             (''delete'', PBool True),
             (''medline_ta'', PNaN),
             (''nlm_unique_id'', PNaN),
             (''issn_linking'', PNaN),
             (''country'', PNaN)]"

text \<open>
  \<^verbatim>\<open>parse_medline_xml\<close> (lines 461 to 518) on the parsed document, given by its root;
  reading and parsing the file is lxml's part.  \<open>medline_citations\<close> is the variable of
  that name after lines 491 to 493.  The parameters are those of the \<^verbatim>\<open>def\<close>:
  \<^verbatim>\<open>year_info_only\<close>, \<^verbatim>\<open>nlm_category\<close>, \<^verbatim>\<open>subscpt\<close> and \<^verbatim>\<open>supscpt\<close>.  Line 494 calls
  \<^verbatim>\<open>parse_article_info\<close> with these and without \<^verbatim>\<open>incl_sections\<close>, which so has its
  default \<^verbatim>\<open>False\<close>.
\<close>

definition medline_citations :: "element \<Rightarrow> element list" where
  "medline_citations tree =
     (let found = tree_findall [u ''MedlineCitationSet'', u ''MedlineCitation''] tree
      in if length found = 0 then tree_findall [u ''MedlineCitation''] tree else found)"

definition parse_medline_xml ::
  "runtime \<Rightarrow> element \<Rightarrow> bool \<Rightarrow> bool \<Rightarrow> (pystr \<times> pystr) option \<Rightarrow> (pystr \<times> pystr) option
     \<Rightarrow> py_error + (string \<rightharpoonup> pyval) list" where
  "parse_medline_xml R tree year_info_only nlm_category subscpt supscpt =
     err_bind
       (map_err (\<lambda>m. parse_article_info R m year_info_only nlm_category subscpt supscpt False)
          (medline_citations tree))
       (\<lambda>article_list.
          Inr (article_list @ map dict_delete (tree_findall [u ''DeleteCitation'', u ''PMID''] tree)))"

section \<open>Example inputs\<close>

text \<open>
  A runtime for the examples.  They hold ASCII text only and pass no markers, so no part
  of the runtime is consulted when the model runs on them.
\<close>

definition example_runtime :: runtime where
  "example_runtime =
     \<lparr>uni_digit = (\<lambda>c. False), uni_decimal = (\<lambda>c. None),
      tostring = (\<lambda>e. []), fromstring = (\<lambda>s. Inl XMLSyntaxError)\<rparr>"

text \<open>An element with text only, and an element with children only.\<close>

definition leaf :: "string \<Rightarrow> string \<Rightarrow> element" where
  "leaf t x = Element (u t) [] (Some (u x)) [] None"

definition node :: "string \<Rightarrow> element list \<Rightarrow> element" where
  "node t cs = Element (u t) [] None cs None"

text \<open>
  Journals whose \<^verbatim>\<open>PubDate\<close> holds a year, a month and a day; a year and a month; and a
  year, a month that is no month, and a day.
\<close>

definition ex_journal :: "element list \<Rightarrow> element" where
  "ex_journal date = node ''Journal'' [node ''JournalIssue'' [node ''PubDate'' date]]"




text \<open>An \<^verbatim>\<open>ELocationID\<close> element with its \<^verbatim>\<open>EIdType\<close> attribute and its text, if any.\<close>

definition eloc :: "string \<Rightarrow> string option \<Rightarrow> element" where
  "eloc ty x = Element (u ''ELocationID'') [(u ''EIdType'', u ty)] (map_option u x) [] None"

text \<open>
  Citations with a \<^verbatim>\<open>MeshHeading\<close> that has no \<^verbatim>\<open>DescriptorName\<close>, and with an
  \<^verbatim>\<open>OtherID\<close>, a doi-typed \<^verbatim>\<open>ELocationID\<close>, a \<^verbatim>\<open>NameOfSubstance\<close> and a
  \<^verbatim>\<open>PublicationType\<close> that have no text.
\<close>

definition ex_mesh_no_descriptor :: element where
  "ex_mesh_no_descriptor =
     node ''MedlineCitation'' [node ''MeshHeadingList'' [node ''MeshHeading'' []]]"

definition ex_other_id_no_text :: element where
  "ex_other_id_no_text = node ''MedlineCitation'' [node ''OtherID'' []]"

definition ex_doi_no_text :: element where
  "ex_doi_no_text = node ''MedlineCitation'' [node ''Article'' [eloc ''doi'' None]]"

definition ex_chemical_no_text :: element where
  "ex_chemical_no_text =
     node ''MedlineCitation''
       [node ''ChemicalList'' [node ''Chemical'' [node ''NameOfSubstance'' []]]]"

definition ex_publication_type_no_text :: element where
  "ex_publication_type_no_text =
     node ''MedlineCitation''
       [node ''Article'' [node ''PublicationTypeList'' [node ''PublicationType'' []]]]"

text \<open>
  Citations whose article has a doi-typed \<^verbatim>\<open>ELocationID\<close> followed by a pii-typed one,
  and the other way round; and a citation with three \<^verbatim>\<open>OtherID\<close> elements, two of
  them with \<^verbatim>\<open>PMC\<close> in their text.
\<close>

definition ex_doi_then_pii :: element where
  "ex_doi_then_pii =
     node ''MedlineCitation''
       [node ''Article'' [eloc ''doi'' (Some ''10.1/x''), eloc ''pii'' (Some ''ABC'')]]"

definition ex_pii_then_doi :: element where
  "ex_pii_then_doi =
     node ''MedlineCitation''
       [node ''Article'' [eloc ''pii'' (Some ''ABC''), eloc ''doi'' (Some '' 10.1/x '')]]"

definition ex_other_ids :: element where
  "ex_other_ids =
     node ''MedlineCitation''
       [leaf ''OtherID'' ''PMC111'', leaf ''OtherID'' ''NIHMS5'', leaf ''OtherID'' ''PMC222'']"

text \<open>
  An \<^verbatim>\<open>AbstractText\<close> section whose \<^verbatim>\<open>Label\<close> and \<^verbatim>\<open>NlmCategory\<close> are both the given
  label.
\<close>

definition abstract_text :: "string \<Rightarrow> string \<Rightarrow> element" where
  "abstract_text label x =
     Element (u ''AbstractText'') [(u ''Label'', u label), (u ''NlmCategory'', u label)]
       (Some (u x)) [] None"

text \<open>
  A citation whose \<^verbatim>\<open>PMID\<close> and \<^verbatim>\<open>ISSNLinking\<close> elements are present and have no
  text.
\<close>

definition ex_citation_no_text :: element where
  "ex_citation_no_text =
     node ''MedlineCitation''
       [node ''PMID'' [],
        node ''Article'' [ex_journal [leaf ''Year'' ''1999'']],
        node ''MedlineJournalInfo'' [node ''ISSNLinking'' []]]"

text \<open>
  A citation with a structured abstract of three sections, labelled
  \<^verbatim>\<open>INTRODUCTION\<close>, \<^verbatim>\<open>UNASSIGNED\<close> and \<^verbatim>\<open>RESULTS\<close>; a document with this citation
  and one deletion notice; and the record of the citation, given its abstract.
\<close>

definition ex_article_sections :: element where
  "ex_article_sections =
     node ''Article''
       [ex_journal [leaf ''Year'' ''1999''],
        node ''Abstract''
          [abstract_text ''INTRODUCTION'' ''a'', abstract_text ''UNASSIGNED'' ''b'',
           abstract_text ''RESULTS'' ''c'']]"

definition ex_citation_sections :: element where
  "ex_citation_sections = node ''MedlineCitation'' [leaf ''PMID'' ''1'', ex_article_sections]"

definition ex_document :: element where
  "ex_document =
     node ''MedlineCitationSet''
       [ex_citation_sections, node ''DeleteCitation'' [leaf ''PMID'' ''12345'']]"

definition ex_record :: "pystr \<Rightarrow> string \<rightharpoonup> pyval" where
  "ex_record abstract =
     map_of [(''title'', PStr []), (''abstract'', PStr abstract), (''journal'', PStr []),
             (''author'', PStr []), (''affiliation'', PStr []), (''pubdate'', PStr (u ''1999'')),
             (''pmid'', PStr (u ''1'')), (''mesh_terms'', PStr []),
             (''publication_types'', PStr []), (''chemical_list'', PStr []),
             (''keywords'', PStr []), (''doi'', PStr []), (''delete'', PBool False)]
     ++ map_of [(''pmc'', PStr []), (''other_id'', PStr [])]
     ++ map_of [(''medline_ta'', PStr []), (''nlm_unique_id'', PStr []),
                (''issn_linking'', PStr []), (''country'', PStr [])]"

text \<open>
  An article like the one before whose second section, labelled \<^verbatim>\<open>UNASSIGNED\<close>, has
  the text \<^verbatim>\<open>UNASSIGNED\<close>.
\<close>

definition ex_article_unassigned_text :: element where
  "ex_article_unassigned_text =
     node ''Article''
       [ex_journal [leaf ''Year'' ''1999''],
        node ''Abstract''
          [abstract_text ''INTRODUCTION'' ''a'', abstract_text ''UNASSIGNED'' ''UNASSIGNED'',
           abstract_text ''RESULTS'' ''c'']]"

text \<open>
  Citations whose first \<^verbatim>\<open>ELocationID\<close> is doi-typed and has no text, followed by a
  pii-typed element and by a doi-typed element with text; and a citation with two
  \<^verbatim>\<open>OtherID\<close> elements that hold \<^verbatim>\<open>PMC\<close>, followed by one without text.
\<close>

definition ex_doi_no_text_then_pii :: element where
  "ex_doi_no_text_then_pii =
     node ''MedlineCitation'' [node ''Article'' [eloc ''doi'' None, eloc ''pii'' (Some ''ABC'')]]"

definition ex_doi_no_text_then_doi :: element where
  "ex_doi_no_text_then_doi =
     node ''MedlineCitation''
       [node ''Article'' [eloc ''doi'' None, eloc ''doi'' (Some ''10.1/x'')]]"

definition ex_other_ids_no_text :: element where
  "ex_other_ids_no_text =
     node ''MedlineCitation''
       [leaf ''OtherID'' ''PMC111'', leaf ''OtherID'' ''PMC222'', node ''OtherID'' []]"

text \<open>
  A citation with an \<^verbatim>\<open>OtherID\<close> that has no text, and a document with this citation
  and one deletion notice.
\<close>

definition ex_citation_other_id_no_text :: element where
  "ex_citation_other_id_no_text =
     node ''MedlineCitation''
       [leaf ''PMID'' ''1'',
        node ''Article'' [ex_journal [leaf ''Year'' ''1999'']],
        node ''OtherID'' []]"

definition ex_document_raises :: element where
  "ex_document_raises =
     node ''MedlineCitationSet''
       [ex_citation_other_id_no_text, node ''DeleteCitation'' [leaf ''PMID'' ''12345'']]"

section \<open>Auxiliary definitions for the proofs\<close>

text \<open>
  What \<^verbatim>\<open>replace_multiple(inp_list, s)\<close> does to one code point of \<open>s\<close>: the code
  points listed in \<^verbatim>\<open>inp_list\<close> become the space.
\<close>

definition space_map :: "nat \<Rightarrow> nat" where
  "space_map c = (if c \<in> set (concat (fst inp_list)) then 32 else c)"

section \<open>Evaluation of the string operations\<close>

lemmas string_defs =
  u_def py_strip_def py_isspace_def py_isdigit_def py_isdigit_char_def py_int_def
  py_decimal_def or_empty_def

section \<open>The month-or-day formatter\<close>

lemma formater_Jan: "month_or_day_formater R (u ''Jan'') = Inr (Some (u ''01''))"
  by (simp add: month_or_day_formater_def month_abbr_def string_defs)

lemma formater_JAN_dot: "month_or_day_formater R (u ''JAN.'') = Inr None"
  by (simp add: month_or_day_formater_def month_abbr_def string_defs)

lemma formater_1: "month_or_day_formater R (u ''1'') = Inr (Some (u ''01''))"
  by (simp add: month_or_day_formater_def month_abbr_def string_defs sublist_code)

lemma formater_13: "month_or_day_formater R (u ''13'') = Inr (Some (u ''13''))"
  by (simp add: month_or_day_formater_def month_abbr_def string_defs sublist_code)

lemma formater_Foo: "month_or_day_formater R (u ''Foo'') = Inr None"
  by (simp add: month_or_day_formater_def month_abbr_def string_defs sublist_code)



text \<open>
  Claim C2 as stated fails: \<^verbatim>\<open>"JAN."\<close> is not mapped to \<^verbatim>\<open>"01"\<close> (the comparison
  with the month abbreviations is case sensitive), and \<^verbatim>\<open>"13"\<close> is not mapped to the
  absent value (it is a string of digits, so it is formatted as a day).
\<close>

theorem month_or_day_formater_claim_refuted:
  "\<not> (month_or_day_formater example_runtime (u ''Jan'') = Inr (Some (u ''01'')) \<and>
      month_or_day_formater example_runtime (u ''JAN.'') = Inr (Some (u ''01'')) \<and>
      month_or_day_formater example_runtime (u ''1'') = Inr (Some (u ''01'')) \<and>
      month_or_day_formater example_runtime (u ''13'') = Inr None \<and>
      month_or_day_formater example_runtime (u ''Foo'') = Inr None)"
  by (simp add: formater_JAN_dot)

text \<open>
  Claim C2, amended: the month-or-day formatter maps \<^verbatim>\<open>"Jan"\<close> and \<^verbatim>\<open>"1"\<close> to
  \<^verbatim>\<open>"01"\<close>, maps \<^verbatim>\<open>"JAN."\<close> and \<^verbatim>\<open>"Foo"\<close> to the absent value \<^verbatim>\<open>None\<close>, and maps
  \<^verbatim>\<open>"13"\<close> to the string \<^verbatim>\<open>"13"\<close>.
\<close>

theorem month_or_day_formater_examples:
  "month_or_day_formater R (u ''Jan'') = Inr (Some (u ''01'')) \<and>
   month_or_day_formater R (u ''1'') = Inr (Some (u ''01'')) \<and>
   month_or_day_formater R (u ''JAN.'') = Inr None \<and>
   month_or_day_formater R (u ''13'') = Inr (Some (u ''13'')) \<and>
   month_or_day_formater R (u ''Foo'') = Inr None"
  by (simp only: formater_Jan formater_1 formater_JAN_dot formater_13 formater_Foo simp_thms)

section \<open>Evaluation on the example elements\<close>

lemma formater_of_leaf: "formater_of_text R (leaf t x) = month_or_day_formater R (u x)"
  by (simp add: formater_of_text_def leaf_def)

lemma tag_leaf: "tag (leaf t x) = u t"
  by (simp add: leaf_def)

lemma tag_node: "tag (node t cs) = u t"
  by (simp add: node_def)

lemma etext_leaf: "etext (leaf t x) = Some (u x)"
  by (simp add: leaf_def)

lemma etext_node: "etext (node t cs) = None"
  by (simp add: node_def)

lemma children_leaf: "children (leaf t x) = []"
  by (simp add: leaf_def)

lemma children_node: "children (node t cs) = cs"
  by (simp add: node_def)

lemma u_eq_iff: "u a = u b \<longleftrightarrow> a = b"
  by (simp add: u_def inj_map_eq_map inj_on_def)

lemmas leaf_simps =
  tag_leaf tag_node etext_leaf etext_node children_leaf children_node u_eq_iff formater_of_leaf

section \<open>The date resolver\<close>

lemma date_extractor_fields:
  assumes "findall [u ''JournalIssue''] journal = issue # others"
    and "find_first [u ''PubDate''] issue = Some issue_date"
    and "date_fields R issue_date yio = Inr (year, month, day)"
  shows "date_extractor R journal yio = Inr (date_serialize yio year month day)"
  using assms by (simp add: date_extractor_def err_bind_def)

lemma date_serialize_year:
  "year_info_only \<or> month = None \<Longrightarrow> date_serialize year_info_only year month day = year"
  by (auto simp: date_serialize_def)


lemma ex_journal_issue:
  "findall [u ''JournalIssue''] (ex_journal date) = [node ''JournalIssue'' [node ''PubDate'' date]]"
  by (simp add: ex_journal_def leaf_simps)

lemma ex_journal_pubdate:
  "find_first [u ''PubDate''] (node ''JournalIssue'' [node ''PubDate'' date]) =
   Some (node ''PubDate'' date)"
  by (simp add: find_first_def leaf_simps)

lemma ex_journal_extract:
  "date_fields R (node ''PubDate'' date) yio = Inr (year, month, day) \<Longrightarrow>
   date_extractor R (ex_journal date) yio = Inr (date_serialize yio year month day)"
  by (rule date_extractor_fields [OF ex_journal_issue ex_journal_pubdate])









section \<open>The scalar field extractors\<close>

lemma tag_eloc: "tag (eloc ty x) = u ''ELocationID''"
  by (simp add: eloc_def)

lemma etext_eloc: "etext (eloc ty x) = map_option u x"
  by (simp add: eloc_def)

lemma attrib_eloc: "attrib_get (eloc ty x) (u ''EIdType'') [] = u ty"
  by (simp add: eloc_def attrib_get_def)

lemma or_empty_id: "or_empty s = s"
  by (simp add: or_empty_def)

lemma mesh_terms_raises: "parse_mesh_terms ex_mesh_no_descriptor = Inl AttributeError"
  by (simp add: parse_mesh_terms_def ex_mesh_no_descriptor_def mesh_term_def find_first_def
      err_bind_def leaf_simps)

lemma other_id_raises: "parse_other_id ex_other_id_no_text = Inl TypeError"
  by (simp add: parse_other_id_def ex_other_id_no_text_def err_bind_def leaf_simps)

lemma doi_raises: "parse_doi ex_doi_no_text = Inl AttributeError"
  by (simp add: parse_doi_def ex_doi_no_text_def find_first_def leaf_simps tag_eloc etext_eloc
      attrib_eloc)

lemma chemical_list_raises: "parse_chemical_list ex_chemical_no_text = Inl AttributeError"
  by (simp add: parse_chemical_list_def ex_chemical_no_text_def chemical_entry_def ui_text_def
      find_first_def err_bind_def leaf_simps)

lemma publication_types_raises:
  "parse_publication_types ex_publication_type_no_text = Inl AttributeError"
  by (simp add: parse_publication_types_def ex_publication_type_no_text_def ui_text_def
      find_first_def err_bind_def leaf_simps)

text \<open>
  Claim C1 says that no scalar field extractor fails on a well-formed citation, in
  particular not on a \<^verbatim>\<open>MeshHeading\<close> without \<^verbatim>\<open>DescriptorName\<close> nor on an
  \<^verbatim>\<open>OtherID\<close>, \<^verbatim>\<open>ELocationID\<close>, \<^verbatim>\<open>Chemical\<close> or \<^verbatim>\<open>PublicationType\<close> without text.
  The code raises on each of these inputs: \<^verbatim>\<open>parse_mesh_terms\<close> reads \<^verbatim>\<open>.attrib\<close> of
  \<^verbatim>\<open>None\<close>, \<^verbatim>\<open>parse_other_id\<close> tests \<^verbatim>\<open>'PMC' in None\<close>, and the other three call
  \<^verbatim>\<open>.strip()\<close> on \<^verbatim>\<open>None\<close>.
\<close>

theorem scalar_extractors_raise:
  "parse_mesh_terms ex_mesh_no_descriptor = Inl AttributeError \<and>
   parse_other_id ex_other_id_no_text = Inl TypeError \<and>
   parse_doi ex_doi_no_text = Inl AttributeError \<and>
   parse_chemical_list ex_chemical_no_text = Inl AttributeError \<and>
   parse_publication_types ex_publication_type_no_text = Inl AttributeError"
  by (simp only: mesh_terms_raises other_id_raises doi_raises chemical_list_raises
      publication_types_raises simp_thms)

subsection \<open>The DOI\<close>

lemma doi_loop_last:
  "\<forall>x\<in>set es. attrib_get x (u ''EIdType'') [] = u ''doi'' \<longrightarrow> etext x \<noteq> None \<Longrightarrow>
   doi_loop (es @ [e]) acc =
     (if attrib_get e (u ''EIdType'') [] = u ''doi''
      then (case etext e of None \<Rightarrow> Inl AttributeError | Some t \<Rightarrow> Inr (py_strip t))
      else Inr [])"
  by (induction es arbitrary: acc) (auto simp: or_empty_id split: option.splits)

lemma parse_doi_last:
  assumes "find_first [u ''Article''] medline = Some article"
    and "findall [u ''ELocationID''] article = es @ [e]"
    and "\<forall>x\<in>set es. attrib_get x (u ''EIdType'') [] = u ''doi'' \<longrightarrow> etext x \<noteq> None"
  shows "parse_doi medline =
     (if attrib_get e (u ''EIdType'') [] = u ''doi''
      then (case etext e of None \<Rightarrow> Inl AttributeError | Some t \<Rightarrow> Inr (py_strip t))
      else Inr [])"
  using assms(1,2) doi_loop_last [OF assms(3)] by (simp add: parse_doi_def)

lemma parse_doi_general:
  assumes "find_first [u ''Article''] medline = Some article"
    and "findall [u ''ELocationID''] article = earlier @ d # later"
    and "attrib_get d (u ''EIdType'') [] = u ''doi''" and "etext d = Some t"
    and "\<forall>x\<in>set later. attrib_get x (u ''EIdType'') [] \<noteq> u ''doi''"
    and "\<forall>x\<in>set earlier. attrib_get x (u ''EIdType'') [] = u ''doi'' \<longrightarrow> etext x \<noteq> None"
  shows "parse_doi medline = Inr (if later = [] then py_strip t else [])"
proof (cases later rule: rev_cases)
  case Nil
  with assms show ?thesis using parse_doi_last [of medline article earlier d] by simp
next
  case (snoc ys y)
  have "findall [u ''ELocationID''] article = (earlier @ d # ys) @ [y]"
    using assms(2) snoc by simp
  moreover have "\<forall>x\<in>set (earlier @ d # ys).
      attrib_get x (u ''EIdType'') [] = u ''doi'' \<longrightarrow> etext x \<noteq> None"
    using assms snoc by auto
  ultimately have "parse_doi medline =
     (if attrib_get y (u ''EIdType'') [] = u ''doi''
      then (case etext y of None \<Rightarrow> Inl AttributeError | Some t \<Rightarrow> Inr (py_strip t))
      else Inr [])"
    using parse_doi_last [OF assms(1)] by blast
  with assms(5) snoc show ?thesis by simp
qed

lemma ex_doi_then_pii_article:
  "find_first [u ''Article''] ex_doi_then_pii =
     Some (node ''Article'' [eloc ''doi'' (Some ''10.1/x''), eloc ''pii'' (Some ''ABC'')])"
  by (simp add: ex_doi_then_pii_def find_first_def leaf_simps)

lemma ex_doi_then_pii_elocs:
  "findall [u ''ELocationID'']
     (node ''Article'' [eloc ''doi'' (Some ''10.1/x''), eloc ''pii'' (Some ''ABC'')]) =
   [] @ eloc ''doi'' (Some ''10.1/x'') # [eloc ''pii'' (Some ''ABC'')]"
  by (simp add: leaf_simps tag_eloc)

lemma ex_pii_then_doi_article:
  "find_first [u ''Article''] ex_pii_then_doi =
     Some (node ''Article'' [eloc ''pii'' (Some ''ABC''), eloc ''doi'' (Some '' 10.1/x '')])"
  by (simp add: ex_pii_then_doi_def find_first_def leaf_simps)

lemma ex_pii_then_doi_elocs:
  "findall [u ''ELocationID'']
     (node ''Article'' [eloc ''pii'' (Some ''ABC''), eloc ''doi'' (Some '' 10.1/x '')]) =
   [eloc ''pii'' (Some ''ABC'')] @ eloc ''doi'' (Some '' 10.1/x '') # []"
  by (simp add: leaf_simps tag_eloc)

lemma strip_example: "py_strip (u '' 10.1/x '') = u ''10.1/x''"
  by (simp add: string_defs)

text \<open>
  Where every doi-typed \<^verbatim>\<open>ELocationID\<close> has text, the last match wins: when the
  elements are \<open>earlier @ d # later\<close>, with \<open>d\<close> the last doi-typed one, the DOI is
  the stripped text of \<open>d\<close> if nothing follows \<open>d\<close>, and the empty string if anything
  follows it.  The entries doi \<^verbatim>\<open>"10.1/x"\<close>, pii \<^verbatim>\<open>"ABC"\<close> give the empty string.
\<close>

lemma parse_doi_last_match_wins:
  "(\<forall>medline article earlier d later t.
      find_first [u ''Article''] medline = Some article \<longrightarrow>
      findall [u ''ELocationID''] article = earlier @ d # later \<longrightarrow>
      attrib_get d (u ''EIdType'') [] = u ''doi'' \<longrightarrow>
      etext d = Some t \<longrightarrow>
      (\<forall>x\<in>set later. attrib_get x (u ''EIdType'') [] \<noteq> u ''doi'') \<longrightarrow>
      (\<forall>x\<in>set earlier. attrib_get x (u ''EIdType'') [] = u ''doi'' \<longrightarrow> etext x \<noteq> None) \<longrightarrow>
      parse_doi medline = Inr (if later = [] then py_strip t else [])) \<and>
   parse_doi ex_doi_then_pii = Inr []"
proof (intro conjI allI impI)
  fix medline article earlier d later t
  assume "find_first [u ''Article''] medline = Some article"
    and "findall [u ''ELocationID''] article = earlier @ d # later"
    and "attrib_get d (u ''EIdType'') [] = u ''doi''"
    and "etext d = Some t"
    and "\<forall>x\<in>set later. attrib_get x (u ''EIdType'') [] \<noteq> u ''doi''"
    and "\<forall>x\<in>set earlier. attrib_get x (u ''EIdType'') [] = u ''doi'' \<longrightarrow> etext x \<noteq> None"
  then show "parse_doi medline = Inr (if later = [] then py_strip t else [])"
    by (rule parse_doi_general)
next
  show "parse_doi ex_doi_then_pii = Inr []"
    using parse_doi_general [OF ex_doi_then_pii_article ex_doi_then_pii_elocs, of "u ''10.1/x''"]
    by (simp add: attrib_eloc etext_eloc u_eq_iff)
qed

lemma parse_doi_last_match_wins_examples:
  "parse_doi ex_pii_then_doi = Inr (u ''10.1/x'') \<and> parse_doi ex_doi_then_pii = Inr []"
proof -
  have general:
    "\<And>medline article earlier d later t.
       find_first [u ''Article''] medline = Some article \<Longrightarrow>
       findall [u ''ELocationID''] article = earlier @ d # later \<Longrightarrow>
       attrib_get d (u ''EIdType'') [] = u ''doi'' \<Longrightarrow>
       etext d = Some t \<Longrightarrow>
       (\<forall>x\<in>set later. attrib_get x (u ''EIdType'') [] \<noteq> u ''doi'') \<Longrightarrow>
       (\<forall>x\<in>set earlier. attrib_get x (u ''EIdType'') [] = u ''doi'' \<longrightarrow> etext x \<noteq> None) \<Longrightarrow>
       parse_doi medline = Inr (if later = [] then py_strip t else [])"
    using parse_doi_last_match_wins by blast
  have "parse_doi ex_pii_then_doi = Inr (if ([]::element list) = [] then py_strip (u '' 10.1/x '') else [])"
    by (rule general [OF ex_pii_then_doi_article ex_pii_then_doi_elocs])
       (simp_all add: attrib_eloc etext_eloc u_eq_iff)
  moreover have "parse_doi ex_doi_then_pii = Inr (if [eloc ''pii'' (Some ''ABC'')] = [] then py_strip (u ''10.1/x'') else [])"
    by (rule general [OF ex_doi_then_pii_article ex_doi_then_pii_elocs])
       (simp_all add: attrib_eloc etext_eloc u_eq_iff)
  ultimately show ?thesis by (simp add: strip_example)
qed

subsection \<open>Substrings of joined strings\<close>

lemma sublist_split_at:
  assumes "c \<notin> set w" "w \<noteq> []"
  shows "sublist w (a @ c # b) \<longleftrightarrow> sublist w a \<or> sublist w b"
proof
  assume "sublist w (a @ c # b)"
  then consider "sublist w a" | "sublist w (c # b)"
    | xs1 xs2 where "w = xs1 @ xs2" "suffix xs1 a" "prefix xs2 (c # b)"
    by (auto simp: sublist_append)
  then show "sublist w a \<or> sublist w b"
  proof cases
    case 1
    then show ?thesis by simp
  next
    case 2
    then have "prefix w (c # b) \<or> sublist w b" by (simp add: sublist_Cons_right)
    moreover have "\<not> prefix w (c # b)"
      using assms by (cases w) (auto simp: prefix_Cons)
    ultimately show ?thesis by simp
  next
    case 3
    show ?thesis
    proof (cases xs2)
      case Nil
      with 3 show ?thesis by (auto intro: suffix_imp_sublist)
    next
      case (Cons x xs)
      with 3 have "x = c" by (auto simp: prefix_Cons)
      with 3 Cons assms show ?thesis by auto
    qed
  qed
next
  assume "sublist w a \<or> sublist w b"
  then show "sublist w (a @ c # b)"
    by (auto simp: sublist_append sublist_Cons_right)
qed

lemma sublist_skip_sep:
  "set sep \<inter> set w = {} \<Longrightarrow> w \<noteq> [] \<Longrightarrow> sublist w (sep @ b) \<longleftrightarrow> sublist w b"
proof (induction sep)
  case Nil
  then show ?case by simp
next
  case (Cons c sep)
  then have "sublist w ([] @ c # (sep @ b)) \<longleftrightarrow> sublist w [] \<or> sublist w (sep @ b)"
    by (intro sublist_split_at) auto
  with Cons show ?case by simp
qed

lemma sublist_join_sep:
  assumes "set sep \<inter> set w = {}" "w \<noteq> []" "sep \<noteq> []"
  shows "sublist w (a @ sep @ b) \<longleftrightarrow> sublist w a \<or> sublist w b"
proof -
  obtain c cs where sep: "sep = c # cs" using assms(3) by (cases sep) auto
  have "sublist w (a @ c # (cs @ b)) \<longleftrightarrow> sublist w a \<or> sublist w (cs @ b)"
    using assms sep by (intro sublist_split_at) auto
  moreover have "sublist w (cs @ b) \<longleftrightarrow> sublist w b"
    using assms sep by (intro sublist_skip_sep) auto
  ultimately show ?thesis using sep by simp
qed

lemma sublist_py_join:
  assumes "set sep \<inter> set w = {}" "w \<noteq> []" "sep \<noteq> []"
  shows "sublist w (py_join sep xs) \<longleftrightarrow> (\<exists>x\<in>set xs. sublist w x)"
  using assms
proof (induction sep xs rule: py_join.induct)
  case (1 sep)
  then show ?case by simp
next
  case (2 sep x)
  then show ?case by simp
next
  case (3 sep x y ys)
  then show ?case by (simp add: sublist_join_sep)
qed

subsection \<open>The other identifiers\<close>

lemma other_id_loop_texts:
  "map etext oids = map Some texts \<Longrightarrow>
   other_id_loop oids pmc acc =
     Inr (if filter (sublist (u ''PMC'')) texts = [] then pmc
          else last (filter (sublist (u ''PMC'')) texts),
          acc @ filter (\<lambda>t. \<not> sublist (u ''PMC'') t) texts)"
proof (induction oids arbitrary: texts pmc acc)
  case Nil
  then show ?case by simp
next
  case (Cons oid oids)
  then obtain t ts where texts: "texts = t # ts" "etext oid = Some t" "map etext oids = map Some ts"
    by (cases texts) auto
  show ?case
    using Cons.IH [OF texts(3)] texts(1,2) by simp
qed

lemma parse_other_id_texts:
  assumes "map etext (findall [u ''OtherID''] medline) = map Some texts"
  shows "parse_other_id medline =
     Inr (map_of
       [(''pmc'', PStr (if filter (sublist (u ''PMC'')) texts = [] then []
                        else last (filter (sublist (u ''PMC'')) texts))),
        (''other_id'',
         PStr (py_join (u ''; '') (filter (\<lambda>t. \<not> sublist (u ''PMC'') t) texts)))])"
  using other_id_loop_texts [OF assms, of "[]" "[]"]
  by (simp add: parse_other_id_def err_bind_def)

lemma pmc_sep: "set (u ''; '') \<inter> set (u ''PMC'') = {}" "u ''PMC'' \<noteq> []" "u ''; '' \<noteq> []"
  by (simp_all add: u_def)

lemma ex_other_ids_texts:
  "map etext (findall [u ''OtherID''] ex_other_ids) =
   map Some [u ''PMC111'', u ''NIHMS5'', u ''PMC222'']"
  by (simp add: ex_other_ids_def leaf_simps)

lemma ex_other_ids_pmc:
  "sublist (u ''PMC'') (u ''PMC111'')" "\<not> sublist (u ''PMC'') (u ''NIHMS5'')"
  "sublist (u ''PMC'') (u ''PMC222'')"
  by (simp_all add: u_def sublist_code)

text \<open>
  Where every \<^verbatim>\<open>OtherID\<close> has text (\<open>texts\<close> are these texts in document order) and two
  or more of the texts contain \<^verbatim>\<open>PMC\<close>, \<^verbatim>\<open>parse_other_id\<close> returns as \<^verbatim>\<open>pmc\<close> the
  last of them, and \<^verbatim>\<open>other_id\<close> is the \<^verbatim>\<open>"; "\<close>-joined list of the texts without
  \<^verbatim>\<open>PMC\<close>, so the earlier texts with \<^verbatim>\<open>PMC\<close> are dropped; the joined string
  contains \<^verbatim>\<open>PMC\<close> nowhere.
\<close>

lemma parse_other_id_last_pmc:
  assumes "map etext (findall [u ''OtherID''] medline) = map Some texts"
    and "2 \<le> length (filter (sublist (u ''PMC'')) texts)"
  shows "parse_other_id medline =
           Inr (map_of
             [(''pmc'', PStr (last (filter (sublist (u ''PMC'')) texts))),
              (''other_id'',
               PStr (py_join (u ''; '') (filter (\<lambda>t. \<not> sublist (u ''PMC'') t) texts)))]) \<and>
         \<not> sublist (u ''PMC'')
             (py_join (u ''; '') (filter (\<lambda>t. \<not> sublist (u ''PMC'') t) texts))"
proof
  have "filter (sublist (u ''PMC'')) texts \<noteq> []"
    using assms(2) by auto
  then show "parse_other_id medline =
           Inr (map_of
             [(''pmc'', PStr (last (filter (sublist (u ''PMC'')) texts))),
              (''other_id'',
               PStr (py_join (u ''; '') (filter (\<lambda>t. \<not> sublist (u ''PMC'') t) texts)))])"
    using parse_other_id_texts [OF assms(1)] by simp
  show "\<not> sublist (u ''PMC'')
             (py_join (u ''; '') (filter (\<lambda>t. \<not> sublist (u ''PMC'') t) texts))"
    by (simp add: sublist_py_join [OF pmc_sep])
qed

lemma parse_other_id_last_pmc_example:
  "parse_other_id ex_other_ids =
     Inr (map_of [(''pmc'', PStr (u ''PMC222'')), (''other_id'', PStr (u ''NIHMS5''))]) \<and>
   \<not> sublist (u ''PMC'') (u ''NIHMS5'')"
  using parse_other_id_last_pmc [OF ex_other_ids_texts]
  by (simp add: ex_other_ids_pmc)

section \<open>Whitespace normalisation\<close>

lemma py_replace_to_space: "py_replace [c] [32] s = map (\<lambda>d. if d = c then 32 else d) s"
  by (induction s) (auto simp: prefix_Cons)

lemma py_replace_delete: "py_replace [c] [] s = filter (\<lambda>d. d \<noteq> c) s"
  by (induction s) (auto simp: prefix_Cons)

lemma fold_replace_spaces:
  "fold (\<lambda>x s. py_replace x [32] s) (map (\<lambda>c. [c]) cs) s =
   map (\<lambda>c. if c \<in> set cs then 32 else c) s"
proof (induction cs arbitrary: s)
  case Nil
  then show ?case by simp
next
  case (Cons c cs)
  show ?case
    by (simp add: Cons.IH py_replace_to_space) 
qed

lemma inp_list_singletons:
  "fst inp_list = map (\<lambda>c. [c]) (concat (fst inp_list))" "snd inp_list = [32]"
  by (simp_all add: inp_list_def)

lemma replace_multiple_map: "replace_multiple inp_list s = map space_map s"
  unfolding replace_multiple_def space_map_def
  by (subst inp_list_singletons(1), subst inp_list_singletons(2)) (rule fold_replace_spaces [THEN trans], simp)

lemma normalize_whitespace_alt:
  "normalize_whitespace s = py_strip (re_sub_spaces (filter (\<lambda>c. c \<noteq> 10) (map space_map s)))"
  by (simp add: normalize_whitespace_def replace_multiple_map py_replace_delete)

lemma space_map_idem: "space_map (space_map c) = space_map c"
  by (simp add: space_map_def inp_list_def)

lemma set_re_sub_spaces: "set (re_sub_spaces s) \<subseteq> set s"
  by (induction s rule: re_sub_spaces.induct) auto

lemma set_py_strip: "set (py_strip s) \<subseteq> set s"
  unfolding py_strip_def
  by (metis set_dropWhileD set_rev subsetI)

lemma sublist_py_strip: "sublist (py_strip s) s"
  unfolding py_strip_def
  by (metis sublist_dropWhile sublist_order.order_trans sublist_rev_left)

lemma re_sub_spaces_head: "re_sub_spaces (b # cs) \<noteq> [] \<and> hd (re_sub_spaces (b # cs)) = b"
  by (induction "b # cs" arbitrary: b cs rule: re_sub_spaces.induct) auto

lemma no_double_space: "\<not> sublist [32, 32] (re_sub_spaces s)"
proof (induction s rule: re_sub_spaces.induct)
  case (1 a b cs)
  show ?case
  proof (cases "a = 32 \<and> b = 32")
    case True
    with 1 show ?thesis by simp
  next
    case False
    obtain z where z: "re_sub_spaces (b # cs) = b # z"
      using re_sub_spaces_head [of b cs] by (cases "re_sub_spaces (b # cs)") auto
    with 1 False show ?thesis
      by (auto simp: sublist_Cons_right prefix_Cons)
  qed
qed (auto simp: sublist_Cons_right prefix_Cons)

lemma re_sub_spaces_fixed: "\<not> sublist [32, 32] s \<Longrightarrow> re_sub_spaces s = s"
  by (induction s rule: re_sub_spaces.induct) (auto simp: sublist_Cons_right prefix_Cons)

lemma dropWhile_fixed: "xs = [] \<or> \<not> P (hd xs) \<Longrightarrow> dropWhile P xs = xs"
  by (cases xs) auto

lemma py_strip_idem: "py_strip (py_strip s) = py_strip s"
proof -
  define a where "a = dropWhile py_isspace s"
  define b where "b = rev (dropWhile py_isspace (rev a))"
  have a: "a = [] \<or> \<not> py_isspace (hd a)"
    unfolding a_def by (metis hd_dropWhile)
  have "rev a = takeWhile py_isspace (rev a) @ rev b"
    unfolding b_def by simp
  then have split: "a = b @ rev (takeWhile py_isspace (rev a))"
    by (metis rev_append rev_rev_ident)
  have "b = [] \<or> \<not> py_isspace (hd b)"
  proof (cases b)
    case Nil
    then show ?thesis by simp
  next
    case (Cons x xs)
    then have "hd a = x" by (subst split) simp
    moreover have "a \<noteq> []" using split Cons by auto
    ultimately show ?thesis using a Cons by auto
  qed
  then have 1: "dropWhile py_isspace b = b" by (rule dropWhile_fixed)
  have "rev b = dropWhile py_isspace (rev a)" unfolding b_def by simp
  then have 2: "dropWhile py_isspace (rev b) = rev b"
    by (metis dropWhile_idem)
  show ?thesis
    using 1 2 unfolding py_strip_def a_def [symmetric] b_def [symmetric] by simp
qed

text \<open>
  Claim C9: the whitespace normalisation (replace the code points of \<^verbatim>\<open>inp_list\<close> by a
  space, remove newlines, collapse runs of spaces, strip) is idempotent on every
  string.
\<close>

theorem normalize_whitespace_idempotent: "normalize_whitespace (normalize_whitespace s) = normalize_whitespace s"
proof -
  define t where "t = normalize_whitespace s"
  define y where "y = re_sub_spaces (filter (\<lambda>c. c \<noteq> 10) (map space_map s))"
  have t: "t = py_strip y" unfolding t_def y_def by (rule normalize_whitespace_alt)
  have sub: "set t \<subseteq> set (filter (\<lambda>c. c \<noteq> 10) (map space_map s))"
    unfolding t y_def using set_py_strip set_re_sub_spaces by blast
  have 1: "map space_map t = t"
  proof (rule map_idI)
    fix c assume "c \<in> set t"
    with sub obtain d where "c = space_map d" by auto
    then show "space_map c = c" by (simp add: space_map_idem)
  qed
  have 2: "filter (\<lambda>c. c \<noteq> 10) t = t"
    using sub by (auto simp: filter_id_conv)
  have "\<not> sublist [32, 32] t"
    using no_double_space [of "filter (\<lambda>c. c \<noteq> 10) (map space_map s)"] sublist_py_strip [of y]
    unfolding t y_def by (meson sublist_order.order_trans)
  then have 3: "re_sub_spaces t = t" by (rule re_sub_spaces_fixed)
  have 4: "py_strip t = t" unfolding t by (rule py_strip_idem)
  have "normalize_whitespace t = t"
    by (simp add: normalize_whitespace_alt 1 2 3 4)
  then show ?thesis unfolding t_def .
qed

section \<open>The record assembler and the batch driver on the examples\<close>

lemma tag_abstract_text: "tag (abstract_text l x) = u ''AbstractText''"
  by (simp add: abstract_text_def)

lemma attrib_abstract_text:
  "attrib_get (abstract_text l x) (u ''Label'') [] = u l"
  "attrib_get (abstract_text l x) (u ''NlmCategory'') [] = u l"
  by (simp_all add: abstract_text_def attrib_get_def u_eq_iff)

lemma stringify_abstract_text: "stringify_children R (abstract_text l x) None None = Inr (u x)"
  by (simp add: stringify_children_def abstract_text_def)

lemma tag_ex_journal: "tag (ex_journal d) = u ''Journal''"
  by (simp add: ex_journal_def leaf_simps)

lemma normalize_empty: "normalize_whitespace [] = []"
  by (simp add: normalize_whitespace_alt py_strip_def)

lemma title_none: "parse_title R (node ''Article'' [ex_journal d]) None None = Inr []"
  by (simp add: parse_title_def find_first_def err_bind_def leaf_simps tag_ex_journal normalize_empty)

lemma abstract_none: "parse_abstract R (node ''Article'' [ex_journal d]) nlm None None incl = Inr []"
  by (simp add: parse_abstract_def find_first_def err_bind_def leaf_simps tag_ex_journal normalize_empty Let_def)

lemma authors_none: "parse_authors (node ''Article'' [ex_journal d]) = ([], [])"
  by (simp add: parse_authors_def find_first_def leaf_simps tag_ex_journal)

lemma fields_y: "date_fields R (node ''PubDate'' [leaf ''Year'' ''1999'']) yio = Inr (Some (u ''1999''), None, None)"
  by (cases yio) (simp_all add: date_fields_def find_first_def leaf_simps)

lemma date_y: "date_extractor R (ex_journal [leaf ''Year'' ''1999'']) yio = Inr (Some (u ''1999''))"
  by (simp add: ex_journal_extract [OF fields_y] date_serialize_year)

lemma ex_no_text_article: "find_first [u ''Article''] ex_citation_no_text = Some (node ''Article'' [ex_journal [leaf ''Year'' ''1999'']])"
  by (simp add: ex_citation_no_text_def find_first_def leaf_simps)

lemma ex_no_text_journal: "find_first [u ''Journal''] (node ''Article'' [ex_journal d]) = Some (ex_journal d)"
  by (simp add: find_first_def leaf_simps tag_ex_journal)

lemma children_ex_journal: "children (ex_journal d) = [node ''JournalIssue'' [node ''PubDate'' d]]"
  by (simp add: ex_journal_def leaf_simps)

lemma ex_no_text_pmid: "parse_pmid ex_citation_no_text = None"
  by (simp add: parse_pmid_def ex_citation_no_text_def find_first_def leaf_simps)

lemma ex_no_text_doi: "parse_doi ex_citation_no_text = Inr []"
  by (simp add: parse_doi_def ex_no_text_article leaf_simps tag_ex_journal)

lemma ex_no_text_mesh: "parse_mesh_terms ex_citation_no_text = Inr []"
  by (simp add: parse_mesh_terms_def ex_citation_no_text_def find_first_def leaf_simps)

lemma ex_no_text_pubtypes: "parse_publication_types ex_citation_no_text = Inr []"
  by (simp add: parse_publication_types_def ex_citation_no_text_def find_first_def leaf_simps tag_ex_journal)

lemma ex_no_text_chem: "parse_chemical_list ex_citation_no_text = Inr []"
  by (simp add: parse_chemical_list_def ex_citation_no_text_def find_first_def leaf_simps)

lemma ex_no_text_keywords: "parse_keywords ex_citation_no_text = []"
  by (simp add: parse_keywords_def ex_citation_no_text_def find_first_def leaf_simps)

lemma ex_no_text_other: "parse_other_id ex_citation_no_text = Inr (map_of [(''pmc'', PStr []), (''other_id'', PStr [])])"
  by (simp add: parse_other_id_def ex_citation_no_text_def err_bind_def leaf_simps)

lemma ex_no_text_ji: "parse_journal_info ex_citation_no_text =
   map_of [(''medline_ta'', PStr []), (''nlm_unique_id'', PStr []), (''issn_linking'', PNone), (''country'', PStr [])]"
  by (simp add: parse_journal_info_def ex_citation_no_text_def find_first_def leaf_simps opt_val_def py_strip_def)

lemma ex_sections_findall:
  "findall [u ''Abstract'', u ''AbstractText''] ex_article_sections =
     [abstract_text ''INTRODUCTION'' ''a'', abstract_text ''UNASSIGNED'' ''b'',
      abstract_text ''RESULTS'' ''c'']"
  by (simp add: ex_article_sections_def leaf_simps tag_ex_journal tag_abstract_text)

lemma ex_sections_unlabelled:
  "abstract_sections R
     [abstract_text ''INTRODUCTION'' ''a'', abstract_text ''UNASSIGNED'' ''b'',
      abstract_text ''RESULTS'' ''c''] False category None None =
   Inr [u ''a'', u ''b'', u ''c'']"
  by (simp add: stringify_abstract_text err_bind_def) (simp add: string_defs)

lemma ex_sections_labelled:
  "abstract_sections R
     [abstract_text ''INTRODUCTION'' ''a'', abstract_text ''UNASSIGNED'' ''b'',
      abstract_text ''RESULTS'' ''c''] True (u ''Label'') None None =
   Inr [[10], u ''INTRODUCTION'', u ''a'', u ''b'', [10], u ''RESULTS'', u ''c'']"
  by (simp add: stringify_abstract_text err_bind_def attrib_abstract_text u_eq_iff)
     (simp add: string_defs)

lemma normalize_eval:
  "map space_map s = s1 \<Longrightarrow> filter (\<lambda>c. c \<noteq> 10) s1 = s2 \<Longrightarrow> re_sub_spaces s2 = s3 \<Longrightarrow>
   py_strip s3 = s4 \<Longrightarrow> normalize_whitespace s = s4"
  by (simp add: normalize_whitespace_alt)

lemma strip_abc: "py_strip (py_join (u '' '') [u ''a'', u ''b'', u ''c'']) = u ''a b c''"
  by (simp add: string_defs)

lemma norm_abc: "normalize_whitespace (u ''a b c'') = u ''a b c''"
proof (rule normalize_eval)
  show "map space_map (u ''a b c'') = u ''a b c''"
    by (simp add: space_map_def inp_list_def u_def)
  show "filter (\<lambda>c. c \<noteq> 10) (u ''a b c'') = u ''a b c''"
    by (simp add: u_def)
  show "re_sub_spaces (u ''a b c'') = u ''a b c''"
    by (simp add: u_def)
  show "py_strip (u ''a b c'') = u ''a b c''"
    by (simp add: string_defs)
qed

lemma strip_labelled:
  "py_strip (py_join (u '' '')
      [[10], u ''INTRODUCTION'', u ''a'', u ''b'', [10], u ''RESULTS'', u ''c'']) =
   u ''INTRODUCTION a b '' @ [10] @ u '' RESULTS c''"
  by (simp add: string_defs)

lemma norm_labelled:
  "normalize_whitespace (u ''INTRODUCTION a b '' @ [10] @ u '' RESULTS c'') =
   u ''INTRODUCTION a b RESULTS c''"
proof (rule normalize_eval)
  show "map space_map (u ''INTRODUCTION a b '' @ [10] @ u '' RESULTS c'') =
        u ''INTRODUCTION a b '' @ [10] @ u '' RESULTS c''"
    by (simp add: space_map_def inp_list_def u_def)
  show "filter (\<lambda>c. c \<noteq> 10) (u ''INTRODUCTION a b '' @ [10] @ u '' RESULTS c'') =
        u ''INTRODUCTION a b  RESULTS c''"
    by (simp add: u_def)
  show "re_sub_spaces (u ''INTRODUCTION a b  RESULTS c'') = u ''INTRODUCTION a b RESULTS c''"
    by (simp add: u_def)
  show "py_strip (u ''INTRODUCTION a b RESULTS c'') = u ''INTRODUCTION a b RESULTS c''"
    by (simp add: string_defs)
qed

lemma ex_sections_abstract_plain:
  "parse_abstract R ex_article_sections nlm None None False = Inr (u ''a b c'')"
proof -
  have "parse_abstract R ex_article_sections nlm None None False =
        Inr (normalize_whitespace (py_strip (py_join (u '' '') [u ''a'', u ''b'', u ''c''])))"
    unfolding parse_abstract_def Let_def ex_sections_findall find_first_def ex_sections_unlabelled
    by (simp add: err_bind_def del: py_join.simps)
  then show ?thesis by (simp only: strip_abc norm_abc)
qed

lemma ex_sections_abstract_labelled:
  "parse_abstract R ex_article_sections False None None True =
   Inr (u ''INTRODUCTION a b RESULTS c'')"
proof -
  have "parse_abstract R ex_article_sections False None None True =
        Inr (normalize_whitespace (py_strip (py_join (u '' '')
          [[10], u ''INTRODUCTION'', u ''a'', u ''b'', [10], u ''RESULTS'', u ''c''])))"
    unfolding parse_abstract_def Let_def ex_sections_findall find_first_def
    by (simp add: err_bind_def ex_sections_labelled del: py_join.simps abstract_sections.simps)
  then show ?thesis by (simp only: strip_labelled norm_labelled)
qed

lemma tag_ex_article_sections: "tag ex_article_sections = u ''Article''"
  by (simp add: ex_article_sections_def leaf_simps)

lemma ex_sections_article:
  "find_first [u ''Article''] ex_citation_sections = Some ex_article_sections"
  by (simp add: ex_citation_sections_def find_first_def leaf_simps tag_ex_article_sections)

lemma ex_sections_title: "parse_title R ex_article_sections None None = Inr []"
  by (simp add: parse_title_def ex_article_sections_def find_first_def err_bind_def leaf_simps
      tag_ex_journal normalize_empty)

lemma ex_sections_authors: "parse_authors ex_article_sections = ([], [])"
  by (simp add: parse_authors_def ex_article_sections_def find_first_def leaf_simps tag_ex_journal)

lemma ex_sections_journal:
  "find_first [u ''Journal''] ex_article_sections = Some (ex_journal [leaf ''Year'' ''1999''])"
  by (simp add: ex_article_sections_def find_first_def leaf_simps tag_ex_journal)

lemma ex_sections_pmid: "parse_pmid ex_citation_sections = Some (u ''1'')"
  by (simp add: parse_pmid_def ex_citation_sections_def find_first_def leaf_simps
      tag_ex_article_sections)

lemma ex_sections_doi: "parse_doi ex_citation_sections = Inr []"
  by (simp add: parse_doi_def ex_sections_article)
     (simp add: ex_article_sections_def leaf_simps tag_ex_journal)

lemma ex_sections_mesh: "parse_mesh_terms ex_citation_sections = Inr []"
  by (simp add: parse_mesh_terms_def ex_citation_sections_def find_first_def leaf_simps
      tag_ex_article_sections)

lemma ex_sections_pubtypes: "parse_publication_types ex_citation_sections = Inr []"
  by (simp add: parse_publication_types_def ex_citation_sections_def find_first_def leaf_simps
      tag_ex_article_sections)
     (simp add: ex_article_sections_def leaf_simps tag_ex_journal)

lemma ex_sections_chem: "parse_chemical_list ex_citation_sections = Inr []"
  by (simp add: parse_chemical_list_def ex_citation_sections_def find_first_def leaf_simps
      tag_ex_article_sections)

lemma ex_sections_keywords: "parse_keywords ex_citation_sections = []"
  by (simp add: parse_keywords_def ex_citation_sections_def find_first_def leaf_simps
      tag_ex_article_sections)

lemma ex_sections_other:
  "parse_other_id ex_citation_sections = Inr (map_of [(''pmc'', PStr []), (''other_id'', PStr [])])"
  by (simp add: parse_other_id_def ex_citation_sections_def err_bind_def leaf_simps
      tag_ex_article_sections)

lemma ex_sections_ji: "parse_journal_info ex_citation_sections =
   map_of [(''medline_ta'', PStr []), (''nlm_unique_id'', PStr []), (''issn_linking'', PStr []),
           (''country'', PStr [])]"
  by (simp add: parse_journal_info_def ex_citation_sections_def find_first_def leaf_simps
      tag_ex_article_sections opt_val_def py_strip_def)

lemma ex_sections_info:
  "parse_abstract R ex_article_sections nlm None None incl = Inr abstract \<Longrightarrow>
   parse_article_info R ex_citation_sections yio nlm None None incl = Inr (ex_record abstract)"
  by (simp add: parse_article_info_def ex_sections_article ex_sections_title ex_sections_authors
      ex_sections_journal children_ex_journal leaf_simps date_y ex_sections_pmid ex_sections_doi
      ex_sections_mesh ex_sections_pubtypes ex_sections_chem ex_sections_keywords
      ex_sections_other ex_sections_ji err_bind_def opt_val_def ex_record_def)

lemma ex_record_abstract: "ex_record abstract ''abstract'' = Some (PStr abstract)"
  by (simp add: ex_record_def map_add_def)

lemma descendants_node: "descendants (node t cs) = concat (map (\<lambda>c. c # descendants c) cs)"
  by (simp add: node_def)

lemma descendants_leaf: "descendants (leaf t x) = []"
  by (simp add: leaf_def)

lemma tag_ex_citation_sections: "tag ex_citation_sections = u ''MedlineCitation''"
  by (simp add: ex_citation_sections_def leaf_simps)

lemma descendants_ex_citation:
  "filter (\<lambda>d. tag d = u t) (descendants ex_citation_sections) = 
   (if t = ''PMID'' then [leaf ''PMID'' ''1''] else []) @
   (if t = ''Article'' then [ex_article_sections] else []) @
   filter (\<lambda>d. tag d = u t) (descendants ex_article_sections)"
  by (simp add: ex_citation_sections_def descendants_node descendants_leaf leaf_simps tag_ex_article_sections)

lemma descendants_abstract_text: "descendants (abstract_text l x) = []"
  by (simp add: abstract_text_def)

lemma descendants_ex_article:
  "t \<in> {''MedlineCitationSet'', ''MedlineCitation'', ''DeleteCitation''} \<Longrightarrow>
   filter (\<lambda>d. tag d = u t) (descendants ex_article_sections) = []"
  by (auto simp add: ex_article_sections_def ex_journal_def descendants_node descendants_leaf leaf_simps
     descendants_abstract_text tag_abstract_text)

lemma ex_document_citations: "medline_citations ex_document = [ex_citation_sections]"
  by (simp add: medline_citations_def tree_findall_def ex_document_def descendants_node
      descendants_leaf leaf_simps tag_ex_citation_sections descendants_ex_citation
      descendants_ex_article)

lemma ex_document_deletions:
  "tree_findall [u ''DeleteCitation'', u ''PMID''] ex_document = [leaf ''PMID'' ''12345'']"
  by (simp add: tree_findall_def ex_document_def descendants_node
      descendants_leaf leaf_simps tag_ex_citation_sections descendants_ex_citation
      descendants_ex_article)

lemma ex_document_parse:
  "parse_medline_xml R ex_document yio nlm None None =
   Inr [ex_record (u ''a b c''), dict_delete (leaf ''PMID'' ''12345'')]"
  by (simp add: parse_medline_xml_def ex_document_citations ex_document_deletions err_bind_def
      ex_sections_info [OF ex_sections_abstract_plain])

lemma dict_delete_pmid: "dict_delete p ''pmid'' = Some (opt_val (etext p))"
  by (simp add: dict_delete_def)

lemma dict_delete_delete: "dict_delete p ''delete'' = Some (PBool True)"
  by (simp add: dict_delete_def)

lemma dict_delete_dom:
  "dom (dict_delete p) =
     {''title'', ''abstract'', ''journal'', ''author'', ''affiliation'', ''pubdate'', ''pmid'',
      ''doi'', ''other_id'', ''pmc'', ''mesh_terms'', ''keywords'', ''publication_types'',
      ''chemical_list'', ''delete'', ''medline_ta'', ''nlm_unique_id'', ''issn_linking'',
      ''country''}"
  unfolding dict_delete_def dom_map_of_conv_image_fst by simp

lemma dict_delete_other:
  "k \<in> dom (dict_delete p) \<Longrightarrow> k \<noteq> ''pmid'' \<Longrightarrow> k \<noteq> ''delete'' \<Longrightarrow> dict_delete p k = Some PNaN"
  unfolding dict_delete_dom by (auto simp: dict_delete_def)

text \<open>
  When the citations of the document are assembled without an exception, the batch
  driver returns their records followed by one stub per deletion notice, in document
  order.  The stub of a notice \<open>p\<close> has the text of \<open>p\<close> as \<^verbatim>\<open>pmid\<close>, has
  \<^verbatim>\<open>delete\<close> true, and has \<^verbatim>\<open>nan\<close>, which is not the empty string, in each of its
  other seventeen fields.
\<close>

lemma deletion_stubs:
  assumes "map_err (\<lambda>m. parse_article_info R m year_info_only nlm_category subscpt supscpt False)
             (medline_citations tree) = Inr article_list"
  shows "parse_medline_xml R tree year_info_only nlm_category subscpt supscpt =
           Inr (article_list @
                map dict_delete (tree_findall [u ''DeleteCitation'', u ''PMID''] tree)) \<and>
         (\<forall>p. dict_delete p ''pmid'' = Some (opt_val (etext p)) \<and>
              dict_delete p ''delete'' = Some (PBool True) \<and>
              (\<forall>k\<in>dom (dict_delete p) - {''pmid'', ''delete''}.
                 dict_delete p k = Some PNaN \<and> dict_delete p k \<noteq> Some (PStr [])) \<and>
              dom (dict_delete p) =
                {''title'', ''abstract'', ''journal'', ''author'', ''affiliation'', ''pubdate'',
                 ''pmid'', ''doi'', ''other_id'', ''pmc'', ''mesh_terms'', ''keywords'',
                 ''publication_types'', ''chemical_list'', ''delete'', ''medline_ta'',
                 ''nlm_unique_id'', ''issn_linking'', ''country''})"
proof (intro conjI allI ballI)
  show "parse_medline_xml R tree year_info_only nlm_category subscpt supscpt =
           Inr (article_list @
                map dict_delete (tree_findall [u ''DeleteCitation'', u ''PMID''] tree))"
    using assms by (simp add: parse_medline_xml_def err_bind_def)
next
  fix p k
  assume "k \<in> dom (dict_delete p) - {''pmid'', ''delete''}"
  then have "dict_delete p k = Some PNaN"
    by (intro dict_delete_other) auto
  then show "dict_delete p k = Some PNaN" "dict_delete p k \<noteq> Some (PStr [])"
    by simp_all
qed (rule dict_delete_pmid dict_delete_delete dict_delete_dom)+

lemma deletion_stubs_example:
  "parse_medline_xml example_runtime ex_document True False None None =
     Inr [ex_record (u ''a b c''), dict_delete (leaf ''PMID'' ''12345'')] \<and>
   dict_delete (leaf ''PMID'' ''12345'') ''pmid'' = Some (PStr (u ''12345'')) \<and>
   dict_delete (leaf ''PMID'' ''12345'') ''delete'' = Some (PBool True) \<and>
   dict_delete (leaf ''PMID'' ''12345'') ''title'' = Some PNaN"
proof -
  have articles:
    "map_err (\<lambda>m. parse_article_info example_runtime m True False None None False)
       (medline_citations ex_document) = Inr [ex_record (u ''a b c'')]"
    by (simp add: ex_document_citations ex_sections_info [OF ex_sections_abstract_plain])
  note stubs = deletion_stubs [OF articles]
  have "''title'' \<in> dom (dict_delete (leaf ''PMID'' ''12345'')) - {''pmid'', ''delete''}"
    using stubs by simp
  with stubs have "dict_delete (leaf ''PMID'' ''12345'') ''title'' = Some PNaN"
    by blast
  moreover have "dict_delete (leaf ''PMID'' ''12345'') ''pmid'' = Some (PStr (u ''12345''))"
    using stubs by (simp add: opt_val_def leaf_simps)
  ultimately show ?thesis
    using stubs by (simp add: ex_document_deletions)
qed

text \<open>
  Claim C5 says that every field of an assembled record but \<^verbatim>\<open>delete\<close> is a string.
  For a citation whose \<^verbatim>\<open>PMID\<close> and \<^verbatim>\<open>ISSNLinking\<close> elements have no text the code
  returns a record whose \<^verbatim>\<open>pmid\<close> and \<^verbatim>\<open>issn_linking\<close> are \<^verbatim>\<open>None\<close>: lines 27 and 192
  take \<^verbatim>\<open>.text\<close> without the \<^verbatim>\<open>or ''\<close> of lines 184, 188 and 196.
\<close>

theorem article_info_none_fields:
  "\<exists>d. parse_article_info R ex_citation_no_text True False None None False = Inr d \<and>
       d ''issn_linking'' = Some PNone \<and> d ''pmid'' = Some PNone \<and> \<not> is_str PNone"
  by (simp add: parse_article_info_def ex_no_text_article title_none abstract_none authors_none
      ex_no_text_journal children_ex_journal leaf_simps date_y ex_no_text_pmid ex_no_text_doi
      ex_no_text_mesh ex_no_text_pubtypes ex_no_text_chem ex_no_text_keywords ex_no_text_other
      ex_no_text_ji err_bind_def opt_val_def is_str_def map_add_def)

text \<open>
  Claim C4 says that the entry point has a parameter that switches the section labels
  on.  \<^verbatim>\<open>parse_medline_xml\<close> has no such parameter and never passes
  \<^verbatim>\<open>incl_sections\<close>: whatever its arguments, the abstract of the example citation
  comes without labels, while \<^verbatim>\<open>parse_article_info\<close> called with
  \<^verbatim>\<open>incl_sections=True\<close> labels it.
\<close>

theorem entry_point_never_labels:
  "(\<forall>year_info_only nlm_category.
      \<exists>d. parse_medline_xml R ex_document year_info_only nlm_category None None =
             Inr [d, dict_delete (leaf ''PMID'' ''12345'')] \<and>
          d ''abstract'' = Some (PStr (u ''a b c''))) \<and>
   (\<exists>d. parse_article_info R ex_citation_sections True False None None True = Inr d \<and>
        d ''abstract'' = Some (PStr (u ''INTRODUCTION a b RESULTS c'')))"
  by (simp add: ex_document_parse ex_record_abstract
      ex_sections_info [OF ex_sections_abstract_labelled])

section \<open>The labelled abstract\<close>

lemma sublist_skip_tail:
  assumes "set q \<inter> set w = {}" "w \<noteq> []"
  shows "sublist w (m @ q) \<longleftrightarrow> sublist w m"
proof -
  have "sublist w (m @ q) \<longleftrightarrow> sublist (rev w) (rev q @ rev m)"
    by (metis rev_append sublist_rev)
  also have "\<dots> \<longleftrightarrow> sublist (rev w) (rev m)"
    using assms by (intro sublist_skip_sep) auto
  finally show ?thesis by simp
qed

lemma py_strip_split:
  "\<exists>p q. s = p @ py_strip s @ q \<and> (\<forall>c\<in>set p. py_isspace c) \<and> (\<forall>c\<in>set q. py_isspace c)"
proof -
  define a where "a = dropWhile py_isspace s"
  have 1: "s = takeWhile py_isspace s @ a" unfolding a_def by simp
  have "rev a = takeWhile py_isspace (rev a) @ dropWhile py_isspace (rev a)" by simp
  then have "a = rev (dropWhile py_isspace (rev a)) @ rev (takeWhile py_isspace (rev a))"
    by (metis rev_append rev_rev_ident)
  then have 2: "a = py_strip s @ rev (takeWhile py_isspace (rev a))"
    unfolding py_strip_def a_def .
  have "s = takeWhile py_isspace s @ py_strip s @ rev (takeWhile py_isspace (rev a))"
    using 1 2 by simp
  moreover have "\<forall>c\<in>set (takeWhile py_isspace s). py_isspace c"
    by (auto dest: set_takeWhileD)
  moreover have "\<forall>c\<in>set (rev (takeWhile py_isspace (rev a))). py_isspace c"
    by (auto dest: set_takeWhileD)
  ultimately show ?thesis by blast
qed

lemma sublist_filter_strip_iff:
  assumes "w \<noteq> []" "\<forall>c\<in>set w. \<not> py_isspace c"
  shows "sublist w (filter P (py_strip s)) \<longleftrightarrow> sublist w (filter P s)"
proof -
  obtain p q where s: "s = p @ py_strip s @ q"
    and p: "\<forall>c\<in>set p. py_isspace c" and q: "\<forall>c\<in>set q. py_isspace c"
    using py_strip_split by blast
  have "filter P s = filter P p @ filter P (py_strip s) @ filter P q"
    by (subst s) simp
  moreover have "set (filter P p) \<inter> set w = {}" "set (filter P q) \<inter> set w = {}"
    using p q assms(2) by auto
  ultimately show ?thesis
    using assms(1) by (simp add: sublist_skip_sep sublist_skip_tail)
qed

lemma sublist_strip_iff:
  assumes "w \<noteq> []" "\<forall>c\<in>set w. \<not> py_isspace c"
  shows "sublist w (py_strip s) \<longleftrightarrow> sublist w s"
  using sublist_filter_strip_iff [OF assms, of "\<lambda>c. True" s] by simp

lemma prefix_re_sub_spaces:
  "32 \<notin> set v \<Longrightarrow> prefix v (re_sub_spaces y) \<longleftrightarrow> prefix v y"
proof (induction y arbitrary: v rule: re_sub_spaces.induct)
  case (1 a b cs)
  show ?case
  proof (cases v)
    case Nil
    then show ?thesis by simp
  next
    case (Cons x v')
    with 1 show ?thesis by (auto simp: prefix_Cons)
  qed
qed simp_all

lemma sublist_re_sub_spaces:
  "32 \<notin> set w \<Longrightarrow> w \<noteq> [] \<Longrightarrow> sublist w (re_sub_spaces y) \<longleftrightarrow> sublist w y"
proof (induction y rule: re_sub_spaces.induct)
  case (1 a b cs)
  show ?case
  proof (cases "a = 32 \<and> b = 32")
    case True
    then have "\<not> prefix w (a # b # cs)"
      using 1(3,4) by (cases w) (auto simp: prefix_Cons)
    then have "sublist w (a # b # cs) \<longleftrightarrow> sublist w (b # cs)"
      by (simp add: sublist_Cons_right [of w a "b # cs"])
    with True 1 show ?thesis by simp
  next
    case False
    have rss: "re_sub_spaces (a # b # cs) = a # re_sub_spaces (b # cs)"
      using False by simp
    have pre: "prefix w (a # re_sub_spaces (b # cs)) \<longleftrightarrow> prefix w (a # b # cs)"
      using prefix_re_sub_spaces [OF 1(3), of "a # b # cs"] by (simp only: rss)
    have ih: "sublist w (re_sub_spaces (b # cs)) \<longleftrightarrow> sublist w (b # cs)"
      using 1(2) [OF False 1(3,4)] .
    show ?thesis
      unfolding rss by (simp only: sublist_Cons_right [of w a] pre ih)
  qed
qed simp_all

lemma map_space_fixed:
  "map space_map m = w \<Longrightarrow> \<forall>c\<in>set w. c \<noteq> 32 \<Longrightarrow> m = w"
proof (induction m arbitrary: w)
  case Nil
  then show ?case by simp
next
  case (Cons x m)
  then obtain y w' where w: "w = y # w'" "space_map x = y" "map space_map m = w'"
    by auto
  with Cons have "m = w'" by auto
  moreover have "x = y"
    using w Cons.prems(2) by (auto simp: space_map_def split: if_splits)
  ultimately show ?case using w by simp
qed

lemma sublist_map_space:
  assumes "\<forall>c\<in>set w. c \<noteq> 32 \<and> space_map c = c"
  shows "sublist w (map space_map z) \<longleftrightarrow> sublist w z"
proof
  assume "sublist w (map space_map z)"
  then obtain ps ss where "map space_map z = ps @ w @ ss" by (auto simp: sublist_def)
  then obtain zp zm zs where z: "z = zp @ zm @ zs" "map space_map zm = w"
    by (auto simp: map_eq_append_conv append_eq_map_conv)
  then have "zm = w" using assms map_space_fixed by blast
  with z show "sublist w z" by auto
next
  assume "sublist w z"
  then have "sublist (map space_map w) (map space_map z)" by (rule map_mono_sublist)
  moreover have "map space_map w = w" using assms by (simp add: map_idI)
  ultimately show "sublist w (map space_map z)" by simp
qed

lemma filter_newline_space_map:
  "filter (\<lambda>c. c \<noteq> 10) (map space_map x) = map space_map (filter (\<lambda>c. c \<noteq> 10) x)"
proof -
  have "space_map c \<noteq> 10 \<longleftrightarrow> c \<noteq> 10" for c
    by (simp add: space_map_def inp_list_def)
  then show ?thesis by (simp add: filter_map comp_def)
qed

lemma plain_word_facts:
  assumes "\<forall>c\<in>set w. 32 < c \<and> c < 127"
  shows "\<forall>c\<in>set w. \<not> py_isspace c" "32 \<notin> set w" "\<forall>c\<in>set w. c \<noteq> 32 \<and> space_map c = c"
  using assms by (auto simp: py_isspace_def space_map_def inp_list_def)

lemma sublist_normalize_whitespace:
  assumes "w \<noteq> []" "\<forall>c\<in>set w. 32 < c \<and> c < 127"
  shows "sublist w (normalize_whitespace x) \<longleftrightarrow> sublist w (filter (\<lambda>c. c \<noteq> 10) x)"
  using plain_word_facts [OF assms(2)] assms(1)
  by (simp add: normalize_whitespace_alt sublist_strip_iff sublist_re_sub_spaces
      filter_newline_space_map sublist_map_space)

lemma filter_py_join:
  "filter P (py_join sep xs) = py_join (filter P sep) (map (filter P) xs)"
  by (induction sep xs rule: py_join.induct) simp_all

lemma sublist_normalized_join:
  assumes "w \<noteq> []" "\<forall>c\<in>set w. 32 < c \<and> c < 127"
  shows "sublist w (normalize_whitespace (py_strip (py_join (u '' '') xs))) \<longleftrightarrow>
         (\<exists>x\<in>set xs. sublist w (filter (\<lambda>c. c \<noteq> 10) x))"
proof -
  have sep: "set (u '' '') \<inter> set w = {}" "u '' '' \<noteq> []"
    using assms(2) by (auto simp: u_def)
  have "filter (\<lambda>c. c \<noteq> 10) (u '' '') = u '' ''" by (simp add: u_def)
  then show ?thesis
    using plain_word_facts [OF assms(2)] assms(1) sep
    by (simp add: sublist_normalize_whitespace [OF assms] sublist_filter_strip_iff filter_py_join
        sublist_py_join)
qed

lemma labelled_sections:
  assumes "attrib_get a1 category [] = u ''INTRODUCTION''"
    and "attrib_get a2 category [] = u ''UNASSIGNED''"
    and "attrib_get a3 category [] = u ''RESULTS''"
    and "stringify_children R a1 subscpt supscpt = Inr s1"
    and "stringify_children R a2 subscpt supscpt = Inr s2"
    and "stringify_children R a3 subscpt supscpt = Inr s3"
  shows "abstract_sections R [a1, a2, a3] True category subscpt supscpt =
         Inr [[10], u ''INTRODUCTION'', py_strip s1, py_strip s2, [10], u ''RESULTS'', py_strip s3]"
  by (simp add: assms err_bind_def u_eq_iff)

lemma parse_abstract_labelled:
  assumes "findall [u ''Abstract'', u ''AbstractText''] article = [a1, a2, a3]"
    and "attrib_get a1 (if nlm_category then u ''NlmCategory'' else u ''Label'') [] = u ''INTRODUCTION''"
    and "attrib_get a2 (if nlm_category then u ''NlmCategory'' else u ''Label'') [] = u ''UNASSIGNED''"
    and "attrib_get a3 (if nlm_category then u ''NlmCategory'' else u ''Label'') [] = u ''RESULTS''"
    and "stringify_children R a1 subscpt supscpt = Inr s1"
    and "stringify_children R a2 subscpt supscpt = Inr s2"
    and "stringify_children R a3 subscpt supscpt = Inr s3"
  shows "parse_abstract R article nlm_category subscpt supscpt True =
         Inr (normalize_whitespace (py_strip (py_join (u '' '')
           [[10], u ''INTRODUCTION'', py_strip s1, py_strip s2, [10], u ''RESULTS'', py_strip s3])))"
  unfolding parse_abstract_def Let_def find_first_def assms(1)
    labelled_sections [OF assms(2-7)]
  by (simp add: err_bind_def del: py_join.simps)

lemma label_words:
  "u ''INTRODUCTION'' \<noteq> []" "\<forall>c\<in>set (u ''INTRODUCTION''). 32 < c \<and> c < 127"
  "u ''RESULTS'' \<noteq> []" "\<forall>c\<in>set (u ''RESULTS''). 32 < c \<and> c < 127"
  "u ''UNASSIGNED'' \<noteq> []" "\<forall>c\<in>set (u ''UNASSIGNED''). 32 < c \<and> c < 127"
  by (simp_all add: u_def)

lemma label_sublists:
  "sublist (u ''INTRODUCTION'') (filter (\<lambda>c. c \<noteq> 10) (u ''INTRODUCTION''))"
  "sublist (u ''RESULTS'') (filter (\<lambda>c. c \<noteq> 10) (u ''RESULTS''))"
  "\<not> sublist (u ''UNASSIGNED'') (filter (\<lambda>c. c \<noteq> 10) (u ''INTRODUCTION''))"
  "\<not> sublist (u ''UNASSIGNED'') (filter (\<lambda>c. c \<noteq> 10) (u ''RESULTS''))"
  by (simp_all add: u_def sublist_code)

text \<open>
  Claim C8, amended: for an article whose \<^verbatim>\<open>AbstractText\<close> sections are three, with the
  labels \<^verbatim>\<open>INTRODUCTION\<close>, \<^verbatim>\<open>UNASSIGNED\<close> and \<^verbatim>\<open>RESULTS\<close> in the attribute chosen by
  \<^verbatim>\<open>nlm_category\<close>, and whose flattened texts are \<open>s1\<close>, \<open>s2\<close> and \<open>s3\<close>, the abstract
  assembled with \<^verbatim>\<open>incl_sections\<close> true is the normalised join of the labels
  \<^verbatim>\<open>INTRODUCTION\<close> and \<^verbatim>\<open>RESULTS\<close> and the three stripped texts (no label for the
  second).  It contains \<^verbatim>\<open>INTRODUCTION\<close> and \<^verbatim>\<open>RESULTS\<close>; and it contains
  \<^verbatim>\<open>UNASSIGNED\<close> exactly when one of the three texts, with its newlines removed,
  contains it.
\<close>

theorem labelled_abstract:
  assumes "findall [u ''Abstract'', u ''AbstractText''] article = [a1, a2, a3]"
    and "attrib_get a1 (if nlm_category then u ''NlmCategory'' else u ''Label'') [] = u ''INTRODUCTION''"
    and "attrib_get a2 (if nlm_category then u ''NlmCategory'' else u ''Label'') [] = u ''UNASSIGNED''"
    and "attrib_get a3 (if nlm_category then u ''NlmCategory'' else u ''Label'') [] = u ''RESULTS''"
    and "stringify_children R a1 subscpt supscpt = Inr s1"
    and "stringify_children R a2 subscpt supscpt = Inr s2"
    and "stringify_children R a3 subscpt supscpt = Inr s3"
  shows "\<exists>abstract.
           parse_abstract R article nlm_category subscpt supscpt True = Inr abstract \<and>
           abstract = normalize_whitespace (py_strip (py_join (u '' '')
             [[10], u ''INTRODUCTION'', py_strip s1, py_strip s2, [10], u ''RESULTS'',
              py_strip s3])) \<and>
           sublist (u ''INTRODUCTION'') abstract \<and>
           sublist (u ''RESULTS'') abstract \<and>
           (sublist (u ''UNASSIGNED'') abstract \<longleftrightarrow>
              sublist (u ''UNASSIGNED'') (filter (\<lambda>c. c \<noteq> 10) s1) \<or>
              sublist (u ''UNASSIGNED'') (filter (\<lambda>c. c \<noteq> 10) s2) \<or>
              sublist (u ''UNASSIGNED'') (filter (\<lambda>c. c \<noteq> 10) s3))"
proof -
  define abstract where "abstract = normalize_whitespace (py_strip (py_join (u '' '')
    [[10], u ''INTRODUCTION'', py_strip s1, py_strip s2, [10], u ''RESULTS'', py_strip s3]))"
  have parsed: "parse_abstract R article nlm_category subscpt supscpt True = Inr abstract"
    unfolding abstract_def by (rule parse_abstract_labelled [OF assms])
  have has_intro: "sublist (u ''INTRODUCTION'') abstract"
    unfolding abstract_def sublist_normalized_join [OF label_words(1,2)]
    using label_sublists(1) by simp
  have has_results: "sublist (u ''RESULTS'') abstract"
    unfolding abstract_def sublist_normalized_join [OF label_words(3,4)]
    using label_sublists(2) by simp
  have ws: "\<forall>c\<in>set (u ''UNASSIGNED''). \<not> py_isspace c"
    by (rule plain_word_facts(1) [OF label_words(6)])
  have "sublist (u ''UNASSIGNED'') abstract \<longleftrightarrow>
          sublist (u ''UNASSIGNED'') (filter (\<lambda>c. c \<noteq> 10) s1) \<or>
          sublist (u ''UNASSIGNED'') (filter (\<lambda>c. c \<noteq> 10) s2) \<or>
          sublist (u ''UNASSIGNED'') (filter (\<lambda>c. c \<noteq> 10) s3)"
    unfolding abstract_def sublist_normalized_join [OF label_words(5,6)]
    using label_sublists(3,4) label_words(5)
    by (simp add: sublist_filter_strip_iff [OF label_words(5) ws])
  with parsed has_intro has_results show ?thesis
    unfolding abstract_def by blast
qed

lemma ex_unassigned_findall:
  "findall [u ''Abstract'', u ''AbstractText''] ex_article_unassigned_text =
     [abstract_text ''INTRODUCTION'' ''a'', abstract_text ''UNASSIGNED'' ''UNASSIGNED'',
      abstract_text ''RESULTS'' ''c'']"
  by (simp add: ex_article_unassigned_text_def leaf_simps tag_ex_journal tag_abstract_text)

lemma attrib_abstract_text_category:
  "attrib_get (abstract_text l x) (if nlm_category then u ''NlmCategory'' else u ''Label'') [] = u l"
  by (simp add: attrib_abstract_text)

lemma strip_unassigned_join:
  "py_strip (py_join (u '' '')
      [[10], u ''INTRODUCTION'', py_strip (u ''a''), py_strip (u ''UNASSIGNED''), [10],
       u ''RESULTS'', py_strip (u ''c'')]) =
   u ''INTRODUCTION a UNASSIGNED '' @ [10] @ u '' RESULTS c''"
  by (simp add: string_defs)

lemma norm_unassigned:
  "normalize_whitespace (u ''INTRODUCTION a UNASSIGNED '' @ [10] @ u '' RESULTS c'') =
   u ''INTRODUCTION a UNASSIGNED RESULTS c''"
proof (rule normalize_eval)
  show "map space_map (u ''INTRODUCTION a UNASSIGNED '' @ [10] @ u '' RESULTS c'') =
        u ''INTRODUCTION a UNASSIGNED '' @ [10] @ u '' RESULTS c''"
    by (simp add: space_map_def inp_list_def u_def)
  show "filter (\<lambda>c. c \<noteq> 10) (u ''INTRODUCTION a UNASSIGNED '' @ [10] @ u '' RESULTS c'') =
        u ''INTRODUCTION a UNASSIGNED  RESULTS c''"
    by (simp add: u_def)
  show "re_sub_spaces (u ''INTRODUCTION a UNASSIGNED  RESULTS c'') =
        u ''INTRODUCTION a UNASSIGNED RESULTS c''"
    by (simp add: u_def)
  show "py_strip (u ''INTRODUCTION a UNASSIGNED RESULTS c'') =
        u ''INTRODUCTION a UNASSIGNED RESULTS c''"
    by (simp add: string_defs)
qed

lemma ex_unassigned_abstract:
  "parse_abstract R ex_article_unassigned_text False None None True =
   Inr (u ''INTRODUCTION a UNASSIGNED RESULTS c'')"
  using parse_abstract_labelled [OF ex_unassigned_findall attrib_abstract_text_category
      attrib_abstract_text_category attrib_abstract_text_category stringify_abstract_text
      stringify_abstract_text stringify_abstract_text, where nlm_category = False and R = R]
  by (simp only: strip_unassigned_join norm_unassigned)

lemma ex_unassigned_contains:
  "sublist (u ''UNASSIGNED'') (u ''INTRODUCTION a UNASSIGNED RESULTS c'')"
  by (simp add: u_def sublist_code)

text \<open>
  Claim C8 as stated fails: only the label \<^verbatim>\<open>UNASSIGNED\<close> is left out, the text of
  the sections is kept, so an abstract whose section text holds the word contains it.
\<close>

theorem labelled_abstract_claim_refuted:
  "parse_abstract example_runtime ex_article_unassigned_text False None None True =
     Inr (u ''INTRODUCTION a UNASSIGNED RESULTS c'') \<and>
   sublist (u ''UNASSIGNED'') (u ''INTRODUCTION a UNASSIGNED RESULTS c'')"
  by (simp only: ex_unassigned_abstract ex_unassigned_contains simp_thms)

lemma ex_sections_texts:
  "\<not> sublist (u ''UNASSIGNED'') (filter (\<lambda>c. c \<noteq> 10) (u ''a''))"
  "\<not> sublist (u ''UNASSIGNED'') (filter (\<lambda>c. c \<noteq> 10) (u ''b''))"
  "\<not> sublist (u ''UNASSIGNED'') (filter (\<lambda>c. c \<noteq> 10) (u ''c''))"
  by (simp_all add: u_def sublist_code)

theorem labelled_abstract_witness:
  "parse_abstract example_runtime ex_article_sections False None None True =
     Inr (u ''INTRODUCTION a b RESULTS c'') \<and>
   sublist (u ''INTRODUCTION'') (u ''INTRODUCTION a b RESULTS c'') \<and>
   sublist (u ''RESULTS'') (u ''INTRODUCTION a b RESULTS c'') \<and>
   \<not> sublist (u ''UNASSIGNED'') (u ''INTRODUCTION a b RESULTS c'')"
  using labelled_abstract [OF ex_sections_findall attrib_abstract_text_category
      attrib_abstract_text_category attrib_abstract_text_category stringify_abstract_text
      stringify_abstract_text stringify_abstract_text, where nlm_category = False and R = example_runtime]
    ex_sections_abstract_labelled [of example_runtime] ex_sections_texts
  by auto

section \<open>Exceptions on elements without text\<close>

lemma doi_no_text_then_pii_raises: "parse_doi ex_doi_no_text_then_pii = Inl AttributeError"
  by (simp add: parse_doi_def ex_doi_no_text_then_pii_def find_first_def leaf_simps tag_eloc
      etext_eloc attrib_eloc)

lemma doi_no_text_then_doi_raises: "parse_doi ex_doi_no_text_then_doi = Inl AttributeError"
  by (simp add: parse_doi_def ex_doi_no_text_then_doi_def find_first_def leaf_simps tag_eloc
      etext_eloc attrib_eloc)

text \<open>
  Claim C3 gives the DOI of every citation whose article has \<^verbatim>\<open>ELocationID\<close>
  elements: the empty string for a doi-typed element followed by a pii-typed one, and
  the stripped text of the last element when it is doi-typed.  The conditional
  expression of line 283 calls \<^verbatim>\<open>.strip()\<close> on the text of each doi-typed element, so
  the code raises when an earlier doi-typed element has no text, whatever follows it.
  This is the defect of claim C1.
\<close>

theorem parse_doi_raises_on_earlier_doi:
  "parse_doi ex_doi_no_text_then_pii = Inl AttributeError \<and>
   parse_doi ex_doi_no_text_then_doi = Inl AttributeError"
  by (simp only: doi_no_text_then_pii_raises doi_no_text_then_doi_raises simp_thms)

text \<open>
  Claim C10 gives the \<^verbatim>\<open>pmc\<close> value of every citation with two or more \<^verbatim>\<open>OtherID\<close>
  texts that contain \<^verbatim>\<open>PMC\<close>.  Line 153 tests \<^verbatim>\<open>'PMC' in oid.text\<close> for each
  \<^verbatim>\<open>OtherID\<close>, so the code raises when a further \<^verbatim>\<open>OtherID\<close> has no text and returns
  no \<^verbatim>\<open>pmc\<close> at all.  This is the defect of claim C1.
\<close>

theorem parse_other_id_raises_after_pmc:
  "parse_other_id ex_other_ids_no_text = Inl TypeError"
  by (simp add: parse_other_id_def ex_other_ids_no_text_def err_bind_def leaf_simps
      ex_other_ids_pmc)

lemma ex_raises_article:
  "find_first [u ''Article''] ex_citation_other_id_no_text =
     Some (node ''Article'' [ex_journal [leaf ''Year'' ''1999'']])"
  by (simp add: ex_citation_other_id_no_text_def find_first_def leaf_simps)

lemma ex_raises_doi: "parse_doi ex_citation_other_id_no_text = Inr []"
  by (simp add: parse_doi_def ex_raises_article leaf_simps tag_ex_journal)

lemma ex_raises_mesh: "parse_mesh_terms ex_citation_other_id_no_text = Inr []"
  by (simp add: parse_mesh_terms_def ex_citation_other_id_no_text_def find_first_def leaf_simps)

lemma ex_raises_pubtypes: "parse_publication_types ex_citation_other_id_no_text = Inr []"
  by (simp add: parse_publication_types_def ex_citation_other_id_no_text_def find_first_def
      leaf_simps tag_ex_journal)

lemma ex_raises_chem: "parse_chemical_list ex_citation_other_id_no_text = Inr []"
  by (simp add: parse_chemical_list_def ex_citation_other_id_no_text_def find_first_def
      leaf_simps)

lemma ex_raises_other: "parse_other_id ex_citation_other_id_no_text = Inl TypeError"
  by (simp add: parse_other_id_def ex_citation_other_id_no_text_def err_bind_def leaf_simps)

lemma ex_raises_info:
  "parse_article_info R ex_citation_other_id_no_text year_info_only nlm_category None None False =
   Inl TypeError"
  by (simp add: parse_article_info_def ex_raises_article title_none abstract_none authors_none
      ex_no_text_journal children_ex_journal leaf_simps date_y ex_raises_doi ex_raises_mesh
      ex_raises_pubtypes ex_raises_chem ex_raises_other err_bind_def)

lemma ex_document_raises_citations:
  "medline_citations ex_document_raises = [ex_citation_other_id_no_text]"
proof -
  have tag: "tag ex_citation_other_id_no_text = u ''MedlineCitation''"
    by (simp add: ex_citation_other_id_no_text_def leaf_simps)
  have inner: "filter (\<lambda>d. tag d = u t) (descendants ex_citation_other_id_no_text) = []"
    if "t \<in> {''MedlineCitationSet'', ''MedlineCitation''}" for t
    using that
    by (auto simp add: ex_citation_other_id_no_text_def ex_journal_def descendants_node
        descendants_leaf leaf_simps)
  show ?thesis
    by (simp add: medline_citations_def tree_findall_def ex_document_raises_def descendants_node
        descendants_leaf leaf_simps tag inner)
qed

lemma ex_document_raises_deletions:
  "tree_findall [u ''DeleteCitation'', u ''PMID''] ex_document_raises = [leaf ''PMID'' ''12345'']"
proof -
  have tag: "tag ex_citation_other_id_no_text = u ''MedlineCitation''"
    by (simp add: ex_citation_other_id_no_text_def leaf_simps)
  have inner: "filter (\<lambda>d. tag d = u ''DeleteCitation'') (descendants ex_citation_other_id_no_text) = []"
    by (simp add: ex_citation_other_id_no_text_def ex_journal_def descendants_node
        descendants_leaf leaf_simps)
  show ?thesis
    by (simp add: tree_findall_def ex_document_raises_def descendants_node
        descendants_leaf leaf_simps tag inner)
qed

text \<open>
  Claim C7 says that the batch driver emits one stub for every deletion notice.  Line
  494 assembles the citations before lines 495 to 517 build the stubs, so on a document
  with a deletion notice and a citation whose \<^verbatim>\<open>OtherID\<close> has no text the driver raises
  and emits no stub.  This is the defect of claim C1.
\<close>

theorem batch_driver_raises_before_stubs:
  "tree_findall [u ''DeleteCitation'', u ''PMID''] ex_document_raises = [leaf ''PMID'' ''12345''] \<and>
   parse_medline_xml R ex_document_raises year_info_only nlm_category None None = Inl TypeError"
  by (simp add: ex_document_raises_deletions parse_medline_xml_def ex_document_raises_citations
      ex_raises_info err_bind_def)

end
